theory Spec2Isabelle
  imports Complex_Main "HOL-Library.AList" "HOL-Library.Sublist"
begin

section \<open>Python values\<close>

text \<open>
  The agents exchange free-form dictionaries that come out of \<^verbatim>\<open>json.loads\<close>. A parsed
  JSON value is \<^verbatim>\<open>None\<close>, a \<^verbatim>\<open>bool\<close>, an unbounded \<^verbatim>\<open>int\<close>, a \<^verbatim>\<open>float\<close>, a \<^verbatim>\<open>str\<close>, a list or
  a dictionary. A dictionary is an association list read with \<open>map_of\<close> and written with
  \<open>AList.update\<close>. A finite float is modelled by the real number it denotes: the rounding
  of float arithmetic, the infinities and NaN are outside the model. Strings are lists of
  8-bit characters, and the case conversions are the ASCII ones.
\<close>

datatype pyval =
    PNone
  | PBool bool
  | PInt int
  | PFloat real
  | PStr string
  | PList "pyval list"
  | PDict "(string \<times> pyval) list"

type_synonym pydict = "(string \<times> pyval) list"

datatype py_error =
    ValueError
  | TypeError
  | KeyError
  | IndexError
  | OverflowError
  | AttributeError
  | ValidationError

text \<open>\<^verbatim>\<open>d.get(k, default)\<close> and \<^verbatim>\<open>d[k] = v\<close>.\<close>

definition dict_get :: "pydict \<Rightarrow> string \<Rightarrow> pyval \<Rightarrow> pyval" where
  "dict_get d k dflt = (case map_of d k of None \<Rightarrow> dflt | Some v \<Rightarrow> v)"

definition dict_set :: "pydict \<Rightarrow> string \<Rightarrow> pyval \<Rightarrow> pydict" where
  "dict_set d k v = AList.update k v d"

text \<open>Truth value testing, as \<^verbatim>\<open>if x:\<close> and \<^verbatim>\<open>not x\<close> do it.\<close>

fun truthy :: "pyval \<Rightarrow> bool" where
  "truthy PNone = False"
| "truthy (PBool b) = b"
| "truthy (PInt n) = (n \<noteq> 0)"
| "truthy (PFloat r) = (r \<noteq> 0)"
| "truthy (PStr s) = (s \<noteq> [])"
| "truthy (PList xs) = (xs \<noteq> [])"
| "truthy (PDict d) = (d \<noteq> [])"

text \<open>
  Converting an \<^verbatim>\<open>int\<close> to a \<^verbatim>\<open>float\<close> rounds to the nearest double and raises
  \<^verbatim>\<open>OverflowError\<close> when the result would not be finite, that is from
  \<open>2 ^ 1024 - 2 ^ 970\<close> on (half way between the largest double and \<open>2 ^ 1024\<close>).
\<close>

definition float_limit :: int where
  "float_limit = 2 ^ 1024 - 2 ^ 970"

text \<open>
  \<^verbatim>\<open>float(x)\<close>. The parser of \<^verbatim>\<open>float\<close> on a \<^verbatim>\<open>str\<close> is Python's own and is a parameter
  \<open>parse\<close>: \<open>None\<close> where it raises \<^verbatim>\<open>ValueError\<close>.
\<close>

fun py_float :: "(string \<Rightarrow> real option) \<Rightarrow> pyval \<Rightarrow> py_error + real" where
  "py_float parse (PFloat r) = Inr r"
| "py_float parse (PInt n) =
     (if float_limit \<le> \<bar>n\<bar> then Inl OverflowError else Inr (real_of_int n))"
| "py_float parse (PBool b) = Inr (if b then 1 else 0)"
| "py_float parse (PStr s) =
     (case parse s of None \<Rightarrow> Inl ValueError | Some r \<Rightarrow> Inr r)"
| "py_float parse PNone = Inl TypeError"
| "py_float parse (PList xs) = Inl TypeError"
| "py_float parse (PDict d) = Inl TypeError"

text \<open>
  \<^verbatim>\<open>x / k\<close> for a positive \<^verbatim>\<open>int\<close> constant \<open>k\<close>: true division. On two \<^verbatim>\<open>int\<close>s it
  raises \<^verbatim>\<open>OverflowError\<close> when the quotient is too large for a float; on anything that is
  not a number it raises \<^verbatim>\<open>TypeError\<close>. A float is divided as the real it denotes: float
  arithmetic that leaves the finite range (on operands beyond about 1e307, where Python
  continues with an infinity or NaN) is outside the model.
\<close>

fun py_truediv :: "pyval \<Rightarrow> int \<Rightarrow> py_error + real" where
  "py_truediv (PFloat r) k = Inr (r / real_of_int k)"
| "py_truediv (PInt n) k =
     (if k * float_limit \<le> \<bar>n\<bar> then Inl OverflowError
      else Inr (real_of_int n / real_of_int k))"
| "py_truediv (PBool b) k = Inr ((if b then 1 else 0) / real_of_int k)"
| "py_truediv PNone k = Inl TypeError"
| "py_truediv (PStr s) k = Inl TypeError"
| "py_truediv (PList xs) k = Inl TypeError"
| "py_truediv (PDict d) k = Inl TypeError"

text \<open>
  The value of a number in a comparison with an \<^verbatim>\<open>int\<close> constant (\<^verbatim>\<open>x < 60\<close>), which
  Python decides exactly; \<open>None\<close> where the comparison raises \<^verbatim>\<open>TypeError\<close>.
\<close>

fun py_number :: "pyval \<Rightarrow> real option" where
  "py_number (PFloat r) = Some r"
| "py_number (PInt n) = Some (real_of_int n)"
| "py_number (PBool b) = Some (if b then 1 else 0)"
| "py_number PNone = None"
| "py_number (PStr s) = None"
| "py_number (PList xs) = None"
| "py_number (PDict d) = None"

section \<open>The narrative-pattern checker (star\_checker.py)\<close>

definition star_components :: "string list" where
  "star_components = [''situation'', ''task'', ''action'', ''result'']"

definition component_present :: "pydict \<Rightarrow> string \<Rightarrow> bool" where
  "component_present analysis component =
     truthy (dict_get analysis (component @ ''_present'') (PBool False))"

text \<open>The first loop of \<^verbatim>\<open>_calculate_star_score\<close>: ten points for each present component.\<close>

fun presence_loop :: "pydict \<Rightarrow> string list \<Rightarrow> int \<Rightarrow> int" where
  "presence_loop analysis [] presence_score = presence_score"
| "presence_loop analysis (c # cs) presence_score =
     (if component_present analysis c
      then presence_loop analysis cs (presence_score + 10)
      else presence_loop analysis cs presence_score)"

text \<open>
  The second loop: \<^verbatim>\<open>(quality / 5) * 15\<close> for each present component. The division
  raises on a quality that is not a number.
\<close>

fun quality_loop :: "pydict \<Rightarrow> string list \<Rightarrow> real \<Rightarrow> py_error + real" where
  "quality_loop analysis [] quality_score = Inr quality_score"
| "quality_loop analysis (c # cs) quality_score =
     (if component_present analysis c
      then (case py_truediv (dict_get analysis (c @ ''_quality'') (PInt 0)) 5 of
              Inl e \<Rightarrow> Inl e
            | Inr q \<Rightarrow> quality_loop analysis cs (quality_score + q * 15))
      else quality_loop analysis cs quality_score)"

text \<open>
  \<^verbatim>\<open>_calculate_star_score\<close>. \<^verbatim>\<open>analysis.get\<close> raises \<^verbatim>\<open>AttributeError\<close> on a parsed value
  that is not a dictionary. \<^verbatim>\<open>min(100.0, total_score)\<close> bounds the score from above only.
\<close>

definition calculate_star_score :: "pyval \<Rightarrow> py_error + real" where
  "calculate_star_score parsed =
     (case parsed of
        PDict analysis \<Rightarrow>
          (case quality_loop analysis star_components 0 of
             Inl e \<Rightarrow> Inl e
           | Inr quality_score \<Rightarrow>
               Inr (min 100 (real_of_int (presence_loop analysis star_components 0)
                             + quality_score)))
      | _ \<Rightarrow> Inl AttributeError)"

definition get_fallback_analysis :: pydict where
  "get_fallback_analysis =
     [(''situation_present'', PBool False), (''situation_quote'', PStr []),
      (''situation_quality'', PInt 0),
      (''task_present'', PBool False), (''task_quote'', PStr []),
      (''task_quality'', PInt 0),
      (''action_present'', PBool False), (''action_quote'', PStr []),
      (''action_quality'', PInt 0),
      (''result_present'', PBool False), (''result_quote'', PStr []),
      (''result_quality'', PInt 0),
      (''score'', PFloat 0),
      (''feedback'', PStr ''Could not analyze STAR pattern.'')]"

text \<open>
  \<^verbatim>\<open>check_star_pattern\<close>. The request to the backend and the extraction of JSON from its
  reply are the backend's behaviour: \<open>None\<close> when the request or \<^verbatim>\<open>json.loads\<close> fails,
  \<open>Some parsed\<close> for the parsed value. Any exception of the scoring is caught and gives the
  fallback analysis.
\<close>

definition check_star_pattern :: "pyval option \<Rightarrow> pydict" where
  "check_star_pattern reply =
     (case reply of
        None \<Rightarrow> get_fallback_analysis
      | Some parsed \<Rightarrow>
          (case calculate_star_score parsed of
             Inl e \<Rightarrow> get_fallback_analysis
           | Inr score \<Rightarrow>
               (case parsed of
                  PDict analysis \<Rightarrow> dict_set analysis ''score'' (PFloat score)
                | _ \<Rightarrow> get_fallback_analysis)))"

section \<open>Strings\<close>

text \<open>
  The string operations of Python the agents use, on ASCII text: \<^verbatim>\<open>lower\<close>, \<^verbatim>\<open>upper\<close>,
  \<^verbatim>\<open>strip\<close>, \<^verbatim>\<open>split\<close> on white space, \<^verbatim>\<open>sub in s\<close>, \<^verbatim>\<open>s.count(sub)\<close> and
  \<^verbatim>\<open>s.replace(' ', '')\<close>.
\<close>

definition is_space :: "char \<Rightarrow> bool" where
  "is_space c = (let n = (of_char c :: nat) in (9 \<le> n \<and> n \<le> 13) \<or> (28 \<le> n \<and> n \<le> 32))"

definition lower_char :: "char \<Rightarrow> char" where
  "lower_char c = (let n = (of_char c :: nat) in if 65 \<le> n \<and> n \<le> 90 then char_of (n + 32) else c)"

definition upper_char :: "char \<Rightarrow> char" where
  "upper_char c = (let n = (of_char c :: nat) in if 97 \<le> n \<and> n \<le> 122 then char_of (n - 32) else c)"

definition lower :: "string \<Rightarrow> string" where
  "lower s = map lower_char s"

definition upper :: "string \<Rightarrow> string" where
  "upper s = map upper_char s"

definition strip :: "string \<Rightarrow> string" where
  "strip s = rev (dropWhile is_space (rev (dropWhile is_space s)))"

definition strip_chars :: "string \<Rightarrow> string \<Rightarrow> string" where
  "strip_chars chars s =
     rev (dropWhile (\<lambda>c. c \<in> set chars) (rev (dropWhile (\<lambda>c. c \<in> set chars) s)))"

text \<open>\<^verbatim>\<open>s.split()\<close>: the maximal runs of characters that are not white space.\<close>

fun split_words :: "string \<Rightarrow> string \<Rightarrow> string list" where
  "split_words cur [] = (if cur = [] then [] else [cur])"
| "split_words cur (c # cs) =
     (if is_space c
      then (if cur = [] then split_words [] cs else cur # split_words [] cs)
      else split_words (cur @ [c]) cs)"

definition py_split :: "string \<Rightarrow> string list" where
  "py_split s = split_words [] s"

text \<open>\<^verbatim>\<open>sub in s\<close>.\<close>

fun contains :: "string \<Rightarrow> string \<Rightarrow> bool" where
  "contains sub [] = (sub = [])"
| "contains sub (c # cs) = (prefix sub (c # cs) \<or> contains sub cs)"

text \<open>
  \<^verbatim>\<open>s.count(sub)\<close> for a non-empty \<open>sub\<close>: the occurrences that do not overlap, from the
  left. The first argument counts the characters of the last match still to skip.
\<close>

fun count_from :: "nat \<Rightarrow> string \<Rightarrow> string \<Rightarrow> nat" where
  "count_from k sub [] = 0"
| "count_from (Suc k) sub (c # cs) = count_from k sub cs"
| "count_from 0 sub (c # cs) =
     (if prefix sub (c # cs) then Suc (count_from (length sub - 1) sub cs)
      else count_from 0 sub cs)"

definition str_count :: "string \<Rightarrow> string \<Rightarrow> nat" where
  "str_count s sub = count_from 0 sub s"

text \<open>\<^verbatim>\<open>s.split(":", 1)[-1]\<close> for an \<open>s\<close> with a colon: what follows the first colon.\<close>

definition after_first_colon :: "string \<Rightarrow> string" where
  "after_first_colon s = tl (dropWhile (\<lambda>c. c \<noteq> CHR '':'') s)"

section \<open>The persona detector (persona\_detector.py)\<close>

datatype PersonaType = CONFUSED | EFFICIENT | CHATTY | EDGE_CASE | NORMAL

fun persona_value :: "PersonaType \<Rightarrow> string" where
  "persona_value CONFUSED = ''confused''"
| "persona_value EFFICIENT = ''efficient''"
| "persona_value CHATTY = ''chatty''"
| "persona_value EDGE_CASE = ''edge_case''"
| "persona_value NORMAL = ''normal''"

definition hesitation_words :: "string list" where
  "hesitation_words =
     [''um'', ''uh'', ''like'', ''maybe'', ''i think'', ''i guess'', ''kind of'', ''sort of'']"

definition star_indicators :: "string list" where
  "star_indicators =
     [''situation'', ''task'', ''action'', ''result'', ''first'', ''then'', ''finally'']"

definition rule_based_detection :: "string \<Rightarrow> real \<Rightarrow> int \<Rightarrow> PersonaType" where
  "rule_based_detection answer duration_seconds word_count =
     (if word_count < 10 then EDGE_CASE
      else if word_count < 3 then EDGE_CASE
      else if length (remdups (lower (filter (\<lambda>c. c \<noteq> CHR '' '') answer))) < 5 then EDGE_CASE
      else
        let hesitation_count = sum_list (map (str_count (lower answer)) hesitation_words) in
        if 3 < hesitation_count \<or> (1 < hesitation_count \<and> word_count < 50) then CONFUSED
        else if 300 < word_count \<or> 150 < duration_seconds then CHATTY
        else if 50 \<le> word_count \<and> word_count \<le> 150 \<and> duration_seconds < 90
                \<and> list_ex (\<lambda>indicator. contains indicator (lower answer)) star_indicators
        then EFFICIENT
        else NORMAL)"

text \<open>
  \<^verbatim>\<open>_llm_based_detection\<close>. The backend's reply is \<open>None\<close> when the request raises, which the
  function catches and answers \<^verbatim>\<open>NORMAL\<close>; otherwise the first keyword found in the
  stripped, upper-cased reply decides.
\<close>

definition llm_based_detection :: "string option \<Rightarrow> PersonaType" where
  "llm_based_detection reply =
     (case reply of
        None \<Rightarrow> NORMAL
      | Some response \<Rightarrow>
          let persona_str = upper (strip response) in
          if contains ''CONFUSED'' persona_str then CONFUSED
          else if contains ''EFFICIENT'' persona_str then EFFICIENT
          else if contains ''CHATTY'' persona_str then CHATTY
          else if contains ''EDGE'' persona_str \<or> contains ''EDGE_CASE'' persona_str then EDGE_CASE
          else NORMAL)"

text \<open>
  \<^verbatim>\<open>detect_persona\<close>, with the detector's \<^verbatim>\<open>persona_history\<close> passed and returned. The
  question only goes into the prompt, so it is no argument here.
\<close>

definition detect_persona ::
  "string \<Rightarrow> real \<Rightarrow> int \<Rightarrow> string option \<Rightarrow> PersonaType list
     \<Rightarrow> PersonaType \<times> PersonaType list" where
  "detect_persona answer duration_seconds word_count reply persona_history =
     (let persona0 = rule_based_detection answer duration_seconds word_count;
          persona = (if persona0 = EDGE_CASE \<or> length (py_split answer) < 10
                     then llm_based_detection reply else persona0)
      in (persona, persona_history @ [persona]))"

section \<open>The response evaluator (response\_evaluator.py)\<close>

definition evaluation_defaults :: pydict where
  "evaluation_defaults =
     [(''relevance_score'', PFloat 50), (''confidence_score'', PFloat 50),
      (''technical_depth_score'', PFloat 50), (''clarity_score'', PFloat 50),
      (''is_on_topic'', PBool True), (''strengths'', PList []), (''weaknesses'', PList []),
      (''feedback'', PStr ''Response received.''), (''needs_follow_up'', PBool False),
      (''follow_up_reason'', PStr [])]"

definition score_keys :: "string list" where
  "score_keys = [''relevance_score'', ''confidence_score'', ''technical_depth_score'',
                 ''clarity_score'']"

text \<open>The first loop of \<^verbatim>\<open>_normalize_evaluation\<close>: a missing key gets its default.\<close>

fun merge_defaults :: "pydict \<Rightarrow> pydict \<Rightarrow> pydict" where
  "merge_defaults [] evaluation = evaluation"
| "merge_defaults ((key, default_value) # rest) evaluation =
     (if map_of evaluation key = None
      then merge_defaults rest (dict_set evaluation key default_value)
      else merge_defaults rest evaluation)"

text \<open>
  The second loop: \<^verbatim>\<open>float\<close> and the clamp; \<^verbatim>\<open>except (ValueError, TypeError)\<close> catches
  those two exceptions only, any other leaves the function.
\<close>

fun clamp_scores ::
  "(string \<Rightarrow> real option) \<Rightarrow> string list \<Rightarrow> pydict \<Rightarrow> py_error + pydict" where
  "clamp_scores parse [] evaluation = Inr evaluation"
| "clamp_scores parse (score_key # rest) evaluation =
     (case map_of evaluation score_key of
        None \<Rightarrow> Inl KeyError
      | Some v \<Rightarrow>
          (case py_float parse v of
             Inr score \<Rightarrow>
               clamp_scores parse rest
                 (dict_set evaluation score_key (PFloat (max 0 (min 100 score))))
           | Inl e \<Rightarrow>
               if e = ValueError \<or> e = TypeError
               then clamp_scores parse rest (dict_set evaluation score_key (PFloat 50))
               else Inl e))"

text \<open>
  \<^verbatim>\<open>_normalize_evaluation\<close>. On a parsed value that is not a dictionary the membership test
  or the item assignment raises \<^verbatim>\<open>TypeError\<close>.
\<close>

definition normalize_evaluation ::
  "(string \<Rightarrow> real option) \<Rightarrow> pyval \<Rightarrow> py_error + pydict" where
  "normalize_evaluation parse parsed =
     (case parsed of
        PDict evaluation \<Rightarrow>
          clamp_scores parse score_keys (merge_defaults evaluation_defaults evaluation)
      | _ \<Rightarrow> Inl TypeError)"

definition get_fallback_evaluation :: pydict where
  "get_fallback_evaluation =
     [(''relevance_score'', PFloat 50), (''confidence_score'', PFloat 50),
      (''technical_depth_score'', PFloat 50), (''clarity_score'', PFloat 50),
      (''is_on_topic'', PBool True), (''strengths'', PList [PStr ''Response provided'']),
      (''weaknesses'', PList [PStr ''Could not be fully evaluated'']),
      (''feedback'', PStr ''Your response has been recorded.''),
      (''needs_follow_up'', PBool False), (''follow_up_reason'', PStr [])]"

text \<open>
  \<^verbatim>\<open>evaluate\<close>: the reply is \<open>None\<close> when the request or the JSON extraction fails; every
  exception of the normalization is caught by the outer handler, which returns the fallback.
\<close>

definition evaluate :: "(string \<Rightarrow> real option) \<Rightarrow> pyval option \<Rightarrow> pydict" where
  "evaluate parse reply =
     (case reply of
        None \<Rightarrow> get_fallback_evaluation
      | Some parsed \<Rightarrow>
          (case normalize_evaluation parse parsed of
             Inl e \<Rightarrow> get_fallback_evaluation
           | Inr evaluation \<Rightarrow> evaluation))"

section \<open>The follow-up engine (followup\_engine.py)\<close>

record FollowUpQuestion =
  fu_text :: string
  fu_reason :: string
  fu_type :: string

text \<open>
  \<^verbatim>\<open>_determine_follow_up_type\<close>. A comparison with a score that is not a number raises
  \<^verbatim>\<open>TypeError\<close>.
\<close>

definition determine_follow_up_type :: "pydict \<Rightarrow> PersonaType \<Rightarrow> py_error + string" where
  "determine_follow_up_type evaluation persona =
     (if \<not> truthy (dict_get evaluation ''is_on_topic'' (PBool True)) then Inr ''redirect''
      else
        (case py_number (dict_get evaluation ''relevance_score'' (PInt 50)) of
           None \<Rightarrow> Inl TypeError
         | Some relevance \<Rightarrow>
             if relevance < 60 then Inr ''probe''
             else if persona = CONFUSED then Inr ''hint''
             else
               (case py_number (dict_get evaluation ''confidence_score'' (PInt 50)) of
                  None \<Rightarrow> Inl TypeError
                | Some confidence \<Rightarrow>
                    if 80 < confidence then Inr ''challenge''
                    else
                      (case py_number (dict_get evaluation ''technical_depth_score'' (PInt 50)) of
                         None \<Rightarrow> Inl TypeError
                       | Some depth \<Rightarrow> if depth < 60 then Inr ''probe'' else Inr ''probe''))))"

definition get_fallback_follow_up :: "string \<Rightarrow> string" where
  "get_fallback_follow_up follow_up_type =
     (if follow_up_type = ''redirect''
      then ''Let's refocus on the original question. Can you provide a more specific answer addressing the core issue?''
      else if follow_up_type = ''hint''
      then ''Think about your past experiences. Can you relate this to a specific project or situation from your background?''
      else if follow_up_type = ''challenge''
      then ''That's interesting. How would you handle this situation if you had different constraints? What alternatives did you consider?''
      else ''Can you elaborate more on that? What specific steps did you take, and what were the measurable outcomes?'')"

text \<open>
  \<^verbatim>\<open>_generate_follow_up_text\<close>: the reply is \<open>None\<close> when the request raises, and the
  handler answers the fallback text of the type.
\<close>

definition generate_follow_up_text :: "string \<Rightarrow> string option \<Rightarrow> string" where
  "generate_follow_up_text follow_up_type reply =
     (case reply of
        None \<Rightarrow> get_fallback_follow_up follow_up_type
      | Some response \<Rightarrow>
          let follow_up = strip_chars [CHR 0x22, CHR 0x27] (strip response) in
          if CHR '':'' \<in> set follow_up then strip (after_first_colon follow_up)
          else follow_up)"

text \<open>
  \<^verbatim>\<open>generate_follow_up\<close>. The question and the answer only go into the prompt. The model
  \<^verbatim>\<open>FollowUpQuestion\<close> declares \<^verbatim>\<open>reason: str\<close>, and its validation raises on a reason
  that is not a string.
\<close>

definition generate_follow_up ::
  "pydict \<Rightarrow> PersonaType \<Rightarrow> string option \<Rightarrow> py_error + FollowUpQuestion option" where
  "generate_follow_up evaluation persona reply =
     (if \<not> truthy (dict_get evaluation ''needs_follow_up'' (PBool False)) then Inr None
      else
        (case determine_follow_up_type evaluation persona of
           Inl e \<Rightarrow> Inl e
         | Inr follow_up_type \<Rightarrow>
             (let follow_up_text = generate_follow_up_text follow_up_type reply in
              if follow_up_text = [] then Inr None
              else
                (case dict_get evaluation ''follow_up_reason'' (PStr ''Seeking clarification'') of
                   PStr reason \<Rightarrow>
                     Inr (Some \<lparr>fu_text = follow_up_text, fu_reason = reason,
                                fu_type = follow_up_type\<rparr>)
                 | _ \<Rightarrow> Inl ValidationError))))"

section \<open>Configuration (config.py)\<close>

text \<open>The two interview settings the core reads, with their defaults.\<close>

record Settings =
  ANSWER_TIME_SECONDS :: int
  TOTAL_QUESTIONS :: int

definition default_settings :: Settings where
  "default_settings = \<lparr>ANSWER_TIME_SECONDS = 180, TOTAL_QUESTIONS = 5\<rparr>"

section \<open>The question generator (question\_generator.py)\<close>

datatype QuestionType = TECHNICAL | BEHAVIORAL | SITUATIONAL | EXPERIENCE

record InterviewQuestion =
  question_id :: int
  question_text :: string
  question_type :: QuestionType
  related_to :: "string option"
  expected_elements :: "string list"
  difficulty :: string

text \<open>\<^verbatim>\<open>xs[:n]\<close>: a negative \<open>n\<close> counts from the end.\<close>

definition py_take :: "int \<Rightarrow> 'a list \<Rightarrow> 'a list" where
  "py_take n xs = (if 0 \<le> n then take (nat n) xs else take (length xs - nat (- n)) xs)"

text \<open>\<^verbatim>\<open>QuestionType(v)\<close>: the enumeration's constructor raises on any other value.\<close>

definition question_type_of :: "pyval \<Rightarrow> QuestionType option" where
  "question_type_of v =
     (case v of
        PStr s \<Rightarrow>
          if s = ''technical'' then Some TECHNICAL
          else if s = ''behavioral'' then Some BEHAVIORAL
          else if s = ''situational'' then Some SITUATIONAL
          else if s = ''experience'' then Some EXPERIENCE
          else None
      | _ \<Rightarrow> None)"

text \<open>
  The validation of the model's fields \<^verbatim>\<open>Optional[str]\<close> and \<^verbatim>\<open>List[str]\<close>: \<open>None\<close> where
  it raises.
\<close>

definition optional_str_of :: "pyval \<Rightarrow> string option option" where
  "optional_str_of v = (case v of PNone \<Rightarrow> Some None | PStr s \<Rightarrow> Some (Some s) | _ \<Rightarrow> None)"

fun str_list_items :: "pyval list \<Rightarrow> string list option" where
  "str_list_items [] = Some []"
| "str_list_items (PStr s # vs) =
     (case str_list_items vs of None \<Rightarrow> None | Some ss \<Rightarrow> Some (s # ss))"
| "str_list_items (v # vs) = None"

definition str_list_of :: "pyval \<Rightarrow> string list option" where
  "str_list_of v = (case v of PList vs \<Rightarrow> str_list_items vs | _ \<Rightarrow> None)"

text \<open>
  The body of the \<^verbatim>\<open>try\<close> in the conversion loop of \<^verbatim>\<open>generate_questions\<close>: \<open>None\<close> when
  building the question raises (a missing \<^verbatim>\<open>question_text\<close>, an entry that is not a
  dictionary, an unknown question type, a field of the wrong type), which the loop answers
  with \<^verbatim>\<open>continue\<close>.
\<close>

definition make_question :: "int \<Rightarrow> pyval \<Rightarrow> InterviewQuestion option" where
  "make_question qid q_data =
     (case q_data of
        PDict d \<Rightarrow>
          (case map_of d ''question_text'' of
             Some (PStr qtext) \<Rightarrow>
               (case question_type_of (dict_get d ''question_type'' (PStr ''behavioral'')) of
                  None \<Rightarrow> None
                | Some qtype \<Rightarrow>
                    (case optional_str_of (dict_get d ''related_to'' PNone) of
                       None \<Rightarrow> None
                     | Some rel \<Rightarrow>
                         (case str_list_of (dict_get d ''expected_elements'' (PList [])) of
                            None \<Rightarrow> None
                          | Some elements \<Rightarrow>
                              (case dict_get d ''difficulty'' (PStr ''medium'') of
                                 PStr diff \<Rightarrow>
                                   Some \<lparr>question_id = qid, question_text = qtext,
                                         question_type = qtype, related_to = rel,
                                         expected_elements = elements, difficulty = diff\<rparr>
                               | _ \<Rightarrow> None))))
           | _ \<Rightarrow> None)
      | _ \<Rightarrow> None)"

text \<open>
  The conversion loop \<^verbatim>\<open>for i, q_data in enumerate(...)\<close>: the identifier is \<^verbatim>\<open>i + 1\<close>, the
  position in the backend's list, also after an entry was skipped.
\<close>

fun convert_questions ::
  "int \<Rightarrow> pyval list \<Rightarrow> InterviewQuestion list \<Rightarrow> InterviewQuestion list" where
  "convert_questions i [] questions = questions"
| "convert_questions i (q_data # rest) questions =
     (case make_question (i + 1) q_data of
        None \<Rightarrow> convert_questions (i + 1) rest questions
      | Some question \<Rightarrow> convert_questions (i + 1) rest (questions @ [question]))"

definition technical_roles :: "string list" where
  "technical_roles =
     [''software'', ''data analyst'', ''data engineer'', ''developer'', ''devops'', ''engineer'']"

definition technical_template :: "string \<Rightarrow> int \<Rightarrow> string \<times> QuestionType \<times> string" where
  "technical_template target_role k =
     (if k = 2 then (''Describe a technical challenge you faced in one of your projects. How did you overcome it?'', BEHAVIORAL, ''easy'')
      else if k = 3 then (''Walk me through your approach to solving a complex problem in '' @ lower target_role @ ''. What tools do you use?'', TECHNICAL, ''hard'')
      else if k = 4 then (''Tell me about a time you had to learn a new technology quickly. What was your process?'', BEHAVIORAL, ''medium'')
      else if k = 5 then (''How do you ensure quality and maintainability in your work?'', SITUATIONAL, ''medium'')
      else (''Tell me about a significant project or internship where you applied '' @ target_role @ '' skills.'', EXPERIENCE, ''medium''))"

definition general_template :: "string \<Rightarrow> int \<Rightarrow> string \<times> QuestionType \<times> string" where
  "general_template target_role k =
     (if k = 2 then (''Describe a situation where you managed competing priorities. How did you handle it?'', BEHAVIORAL, ''easy'')
      else if k = 3 then (''How would you approach a typical challenge in '' @ target_role @ ''?'', SITUATIONAL, ''hard'')
      else if k = 4 then (''Tell me about a time you had to influence stakeholders without authority.'', BEHAVIORAL, ''medium'')
      else if k = 5 then (''How do you measure success in your role?'', SITUATIONAL, ''medium'')
      else (''Tell me about your most impactful accomplishment as a '' @ target_role @ ''.'', EXPERIENCE, ''medium''))"

text \<open>
  \<^verbatim>\<open>_create_generic_question\<close>: \<^verbatim>\<open>questions.get(question_id, questions[1])\<close> takes the first
  template for an identifier outside 1..5 (the last branch of the templates).
\<close>

definition create_generic_question :: "int \<Rightarrow> string \<Rightarrow> InterviewQuestion" where
  "create_generic_question qid target_role =
     (let is_technical = list_ex (\<lambda>tech. contains tech (lower target_role)) technical_roles;
          q = (if is_technical then technical_template target_role qid
               else general_template target_role qid)
      in \<lparr>question_id = qid, question_text = fst q, question_type = fst (snd q),
          related_to = None, expected_elements = [], difficulty = snd (snd q)\<rparr>)"

definition get_fallback_questions :: "string \<Rightarrow> InterviewQuestion list" where
  "get_fallback_questions target_role =
     [create_generic_question 1 target_role, create_generic_question 2 target_role,
      create_generic_question 3 target_role, create_generic_question 4 target_role,
      create_generic_question 5 target_role]"

text \<open>The padding loop \<^verbatim>\<open>while len(questions) < settings.TOTAL_QUESTIONS\<close>.\<close>

function pad_questions ::
  "int \<Rightarrow> string \<Rightarrow> InterviewQuestion list \<Rightarrow> InterviewQuestion list" where
  "pad_questions n target_role questions =
     (if int (length questions) < n
      then pad_questions n target_role
             (questions @ [create_generic_question (int (length questions) + 1) target_role])
      else questions)"
  by pat_completeness auto
termination
  by (relation "measure (\<lambda>(n, target_role, questions). nat (n - int (length questions)))") auto

declare pad_questions.simps [simp del]

text \<open>
  \<^verbatim>\<open>questions_data.get('questions', [])[:settings.TOTAL_QUESTIONS]\<close> as the list the loop
  enumerates: a slice of a list, or the characters of a slice of a string; \<open>None\<close> for a
  value that cannot be sliced, where the outer handler takes over.
\<close>

definition question_items :: "int \<Rightarrow> pyval \<Rightarrow> pyval list option" where
  "question_items n v =
     (case v of
        PList items \<Rightarrow> Some (py_take n items)
      | PStr s \<Rightarrow> Some (map (\<lambda>c. PStr [c]) (py_take n s))
      | _ \<Rightarrow> None)"

text \<open>
  \<^verbatim>\<open>generate_questions\<close>. The reply is \<open>None\<close> when building the prompt, the request or the
  JSON extraction fails. The r\'esum\'e only goes into the prompt.
\<close>

definition generate_questions ::
  "Settings \<Rightarrow> string \<Rightarrow> pyval option \<Rightarrow> InterviewQuestion list" where
  "generate_questions cfg target_role reply =
     (case reply of
        None \<Rightarrow> get_fallback_questions target_role
      | Some questions_data \<Rightarrow>
          (case questions_data of
             PDict d \<Rightarrow>
               (case question_items (TOTAL_QUESTIONS cfg) (dict_get d ''questions'' (PList [])) of
                  None \<Rightarrow> get_fallback_questions target_role
                | Some items \<Rightarrow>
                    py_take (TOTAL_QUESTIONS cfg)
                      (pad_questions (TOTAL_QUESTIONS cfg) target_role
                         (convert_questions 0 items [])))
           | _ \<Rightarrow> get_fallback_questions target_role))"

section \<open>The report generator (report\_generator.py)\<close>

record ScoreBreakdown =
  confidence :: real
  communication :: real
  technical_depth :: real
  star_method_usage :: real
  behavioral_clarity :: real
  overall :: real

text \<open>
  The constructor of \<^verbatim>\<open>ScoreBreakdown\<close>: every field is declared \<^verbatim>\<open>Field(ge=0, le=100)\<close>,
  and the validation raises outside that range.
\<close>

definition in_range :: "real \<Rightarrow> bool" where
  "in_range x = (0 \<le> x \<and> x \<le> 100)"

definition make_score_breakdown ::
  "real \<Rightarrow> real \<Rightarrow> real \<Rightarrow> real \<Rightarrow> real \<Rightarrow> real \<Rightarrow> py_error + ScoreBreakdown" where
  "make_score_breakdown conf comm tech star behav over =
     (if in_range conf \<and> in_range comm \<and> in_range tech \<and> in_range star \<and> in_range behav
         \<and> in_range over
      then Inr \<lparr>confidence = conf, communication = comm, technical_depth = tech,
                star_method_usage = star, behavioral_clarity = behav, overall = over\<rparr>
      else Inl ValidationError)"

text \<open>
  \<^verbatim>\<open>a + b\<close> on numbers: two \<^verbatim>\<open>int\<close>s (a \<^verbatim>\<open>bool\<close> is one) add exactly; with a float the
  \<^verbatim>\<open>int\<close> is converted first.
\<close>

definition int_like :: "pyval \<Rightarrow> int option" where
  "int_like v = (case v of PInt n \<Rightarrow> Some n | PBool b \<Rightarrow> Some (if b then 1 else 0) | _ \<Rightarrow> None)"

definition py_add :: "pyval \<Rightarrow> pyval \<Rightarrow> py_error + pyval" where
  "py_add a b =
     (case (int_like a, int_like b) of
        (Some m, Some n) \<Rightarrow> Inr (PInt (m + n))
      | (Some m, None) \<Rightarrow>
          (case b of
             PFloat y \<Rightarrow>
               (if float_limit \<le> \<bar>m\<bar> then Inl OverflowError else Inr (PFloat (real_of_int m + y)))
           | _ \<Rightarrow> Inl TypeError)
      | (None, Some n) \<Rightarrow>
          (case a of
             PFloat x \<Rightarrow>
               (if float_limit \<le> \<bar>n\<bar> then Inl OverflowError else Inr (PFloat (x + real_of_int n)))
           | _ \<Rightarrow> Inl TypeError)
      | (None, None) \<Rightarrow>
          (case (a, b) of
             (PFloat x, PFloat y) \<Rightarrow> Inr (PFloat (x + y))
           | _ \<Rightarrow> Inl TypeError))"

text \<open>\<^verbatim>\<open>sum(xs)\<close>, started at the \<^verbatim>\<open>int\<close> 0, and \<^verbatim>\<open>sum(xs) / len(xs)\<close>.\<close>

fun py_sum :: "pyval \<Rightarrow> pyval list \<Rightarrow> py_error + pyval" where
  "py_sum acc [] = Inr acc"
| "py_sum acc (x # xs) = (case py_add acc x of Inl e \<Rightarrow> Inl e | Inr acc' \<Rightarrow> py_sum acc' xs)"

definition py_average :: "pyval list \<Rightarrow> py_error + real" where
  "py_average xs =
     (case py_sum (PInt 0) xs of
        Inl e \<Rightarrow> Inl e
      | Inr total_sum \<Rightarrow> py_truediv total_sum (int (length xs)))"

text \<open>\<^verbatim>\<open>round(x, 2)\<close> on a float: to the nearest hundredth, a tie to the even one.\<close>

definition round2 :: "real \<Rightarrow> real" where
  "round2 x =
     (let y = x * 100; f = \<lfloor>y\<rfloor>; d = y - real_of_int f
      in real_of_int (if d < 1 / 2 then f else if 1 / 2 < d then f + 1
                      else if even f then f else f + 1) / 100)"

text \<open>
  The embedded narrative score of an evaluation:
  \<^verbatim>\<open>eval_data.get("star_analysis", {}).get("score", 0)\<close>.
\<close>

definition star_score_of :: "pydict \<Rightarrow> py_error + pyval" where
  "star_score_of eval_data =
     (case dict_get eval_data ''star_analysis'' (PDict []) of
        PDict star_analysis \<Rightarrow> Inr (dict_get star_analysis ''score'' (PInt 0))
      | _ \<Rightarrow> Inl AttributeError)"

fun star_scores_of :: "pydict list \<Rightarrow> py_error + pyval list" where
  "star_scores_of [] = Inr []"
| "star_scores_of (eval_data # rest) =
     (case star_score_of eval_data of
        Inl e \<Rightarrow> Inl e
      | Inr s \<Rightarrow> (case star_scores_of rest of Inl e \<Rightarrow> Inl e | Inr ss \<Rightarrow> Inr (s # ss)))"

text \<open>\<^verbatim>\<open>_calculate_scores\<close>.\<close>

definition calculate_scores :: "pydict list \<Rightarrow> py_error + ScoreBreakdown" where
  "calculate_scores all_evaluations =
     (if all_evaluations = [] then make_score_breakdown 50 50 50 0 50 50
      else
       (case star_scores_of all_evaluations of
          Inl e \<Rightarrow> Inl e
        | Inr star_scores \<Rightarrow>
       (case py_average (map (\<lambda>e. dict_get e ''confidence_score'' (PInt 50)) all_evaluations) of
          Inl e \<Rightarrow> Inl e
        | Inr conf \<Rightarrow>
       (case py_average (map (\<lambda>e. dict_get e ''technical_depth_score'' (PInt 50)) all_evaluations) of
          Inl e \<Rightarrow> Inl e
        | Inr tech \<Rightarrow>
       (case py_average (map (\<lambda>e. dict_get e ''clarity_score'' (PInt 50)) all_evaluations) of
          Inl e \<Rightarrow> Inl e
        | Inr comm \<Rightarrow>
       (case py_average star_scores of
          Inl e \<Rightarrow> Inl e
        | Inr star \<Rightarrow>
       (case py_average (map (\<lambda>e. dict_get e ''relevance_score'' (PInt 50)) all_evaluations) of
          Inl e \<Rightarrow> Inl e
        | Inr behav \<Rightarrow>
            make_score_breakdown (round2 conf) (round2 comm) (round2 tech) (round2 star)
              (round2 behav)
              (round2 (conf * 0.25 + tech * 0.25 + comm * 0.25 + star * 0.15 + behav * 0.10)))))))))"

section \<open>The interview service (interview\_service.py)\<close>

text \<open>
  The models of models/interview.py and the fields of the r\'esum\'e that the service
  reads. A time stamp (\<^verbatim>\<open>datetime.now()\<close>) is a natural number that the caller of an
  operation supplies.
\<close>

record Answer =
  a_question_id :: int
  answer_text :: string
  duration_seconds :: real
  timestamp :: nat
  word_count :: int

record QuestionSession =
  question :: InterviewQuestion
  initial_answer :: "Answer option"
  follow_ups :: "pydict list"
  persona_detected :: PersonaType
  evaluation :: "pydict option"

record InterviewSession =
  session_id :: string
  user_name :: "string option"
  target_role :: string
  resume_summary :: string
  questions :: "QuestionSession list"
  current_question_index :: int
  start_time :: nat
  end_time :: "nat option"
  status :: string

record SubmitAnswerResponse =
  success :: bool
  follow_up_question :: "FollowUpQuestion option"
  next_question :: "InterviewQuestion option"
  is_interview_complete :: bool
  message :: string

record Skill =
  skill_name :: string

record Experience =
  company :: string
  title :: string

record ResumeData =
  resume_name :: "string option"
  skills :: "Skill list"
  experiences :: "Experience list"

text \<open>
  The state of the service object: the two dictionaries keyed by session identifier, and
  the history its persona detector keeps.
\<close>

record InterviewService =
  sessions :: "string \<rightharpoonup> InterviewSession"
  session_evaluations :: "string \<rightharpoonup> pydict list"
  persona_history :: "PersonaType list"

text \<open>
  What the generative backend does during one \<^verbatim>\<open>submit_answer\<close>: its reply to each of the
  four agents, each \<open>None\<close> when the request (or, for the two JSON replies, the extraction
  of JSON) fails.
\<close>

record Backend =
  persona_reply :: "string option"
  evaluation_reply :: "pyval option"
  star_reply :: "pyval option"
  follow_up_reply :: "string option"

text \<open>\<^verbatim>\<open>xs[i]\<close>: the position read, or \<open>None\<close> where Python raises \<^verbatim>\<open>IndexError\<close>.\<close>

definition py_index :: "'a list \<Rightarrow> int \<Rightarrow> nat option" where
  "py_index xs i =
     (if 0 \<le> i then (if i < int (length xs) then Some (nat i) else None)
      else (if - int (length xs) \<le> i then Some (nat (int (length xs) + i)) else None))"

text \<open>\<^verbatim>\<open>sep.join(xs)\<close>.\<close>

fun join :: "string \<Rightarrow> string list \<Rightarrow> string" where
  "join sep [] = []"
| "join sep [x] = x"
| "join sep (x # y # ys) = x @ sep @ join sep (y # ys)"

definition create_resume_summary :: "ResumeData \<Rightarrow> string" where
  "create_resume_summary resume_data =
     join '' | ''
       ((case resume_name resume_data of
           None \<Rightarrow> []
         | Some n \<Rightarrow> (if n = [] then [] else [''Name: '' @ n]))
        @ (if skills resume_data = [] then []
           else [''Skills: '' @ join '', '' (map skill_name (take 5 (skills resume_data)))])
        @ (case experiences resume_data of
             [] \<Rightarrow> []
           | recent # rest \<Rightarrow> [''Recent: '' @ title recent @ '' at '' @ company recent]))"

text \<open>\<^verbatim>\<open>InterviewService.__init__\<close>: no session yet.\<close>

definition new_service :: InterviewService where
  "new_service = \<lparr>sessions = Map.empty, session_evaluations = Map.empty, persona_history = []\<rparr>"

text \<open>
  \<^verbatim>\<open>start_interview\<close>: the session is stored under its identifier, over any earlier one,
  with an empty evaluation list.
\<close>

definition start_interview ::
  "Settings \<Rightarrow> InterviewService \<Rightarrow> string \<Rightarrow> ResumeData \<Rightarrow> string \<Rightarrow> pyval option \<Rightarrow> nat
     \<Rightarrow> InterviewSession \<times> InterviewService" where
  "start_interview cfg st sid resume_data role reply now =
     (let qs = generate_questions cfg role reply;
          session =
            \<lparr>session_id = sid, user_name = resume_name resume_data, target_role = role,
             resume_summary = create_resume_summary resume_data,
             questions = map (\<lambda>q. \<lparr>question = q, initial_answer = None, follow_ups = [],
                                     persona_detected = NORMAL, evaluation = None\<rparr>) qs,
             current_question_index = 0, start_time = now, end_time = None,
             status = ''in_progress''\<rparr>
      in (session,
          st\<lparr>sessions := (sessions st)(sid \<mapsto> session),
             session_evaluations := (session_evaluations st)(sid \<mapsto> [])\<rparr>))"

definition get_current_question ::
  "InterviewService \<Rightarrow> string \<Rightarrow> py_error + InterviewQuestion option" where
  "get_current_question st sid =
     (case sessions st sid of
        None \<Rightarrow> Inl ValueError
      | Some session \<Rightarrow>
          if int (length (questions session)) \<le> current_question_index session then Inr None
          else
            (case py_index (questions session) (current_question_index session) of
               None \<Rightarrow> Inl IndexError
             | Some j \<Rightarrow> Inr (Some (question (questions session ! j)))))"

text \<open>
  The common tail of \<^verbatim>\<open>submit_answer\<close> and \<^verbatim>\<open>submit_followup_answer\<close>, which the source
  writes out twice (the messages differ): move to the next question, complete the interview
  when the cursor has reached the number of questions, otherwise return the next question.
  The session has already been changed in place when an operation raises, so the state
  comes back with the outcome.
\<close>

definition advance ::
  "InterviewService \<Rightarrow> string \<Rightarrow> InterviewSession \<Rightarrow> string \<Rightarrow> nat
     \<Rightarrow> (py_error + SubmitAnswerResponse) \<times> InterviewService" where
  "advance st sid session msg now =
     (let session1 = session\<lparr>current_question_index := current_question_index session + 1\<rparr>
      in if int (length (questions session1)) \<le> current_question_index session1
         then (Inr \<lparr>success = True, follow_up_question = None, next_question = None,
                     is_interview_complete = True, message = ''Interview completed!''\<rparr>,
               st\<lparr>sessions := (sessions st)
                      (sid \<mapsto> session1\<lparr>status := ''completed'', end_time := Some now\<rparr>)\<rparr>)
         else
           (case py_index (questions session1) (current_question_index session1) of
              None \<Rightarrow> (Inl IndexError, st\<lparr>sessions := (sessions st)(sid \<mapsto> session1)\<rparr>)
            | Some j \<Rightarrow>
                (Inr \<lparr>success = True, follow_up_question = None,
                      next_question = Some (question (questions session1 ! j)),
                      is_interview_complete = False, message = msg\<rparr>,
                 st\<lparr>sessions := (sessions st)(sid \<mapsto> session1)\<rparr>)))"

text \<open>The dictionary that \<^verbatim>\<open>submit_answer\<close> appends to the follow-ups of a question.\<close>

definition follow_up_entry :: "FollowUpQuestion \<Rightarrow> pydict" where
  "follow_up_entry follow_up =
     [(''question'', PStr (fu_text follow_up)), (''answer'', PNone),
      (''type'', PStr (fu_type follow_up))]"

text \<open>
  \<^verbatim>\<open>submit_answer\<close>. \<open>parse\<close> is Python's \<^verbatim>\<open>float\<close> on strings, \<open>be\<close> the backend's behaviour
  during the call, \<open>t_answer\<close> and \<open>t_end\<close> the clock when the answer is recorded and when
  the interview completes.
\<close>

definition submit_answer ::
  "(string \<Rightarrow> real option) \<Rightarrow> Settings \<Rightarrow> InterviewService \<Rightarrow> string \<Rightarrow> int \<Rightarrow> string
     \<Rightarrow> real \<Rightarrow> bool \<Rightarrow> Backend \<Rightarrow> nat \<Rightarrow> nat
     \<Rightarrow> (py_error + SubmitAnswerResponse) \<times> InterviewService" where
  "submit_answer parse cfg st sid qid text duration is_voice be t_answer t_end =
     (case sessions st sid of
        None \<Rightarrow> (Inl ValueError, st)
      | Some session \<Rightarrow>
          if real_of_int (ANSWER_TIME_SECONDS cfg) < duration
          then (Inr \<lparr>success = False, follow_up_question = None, next_question = None,
                      is_interview_complete = False,
                      message = ''Answer exceeded time limit. Moving to next question.''\<rparr>,
                st)
          else
            (case py_index (questions session) (current_question_index session) of
               None \<Rightarrow> (Inl IndexError, st)
             | Some j \<Rightarrow>
                 let q_session = questions session ! j;
                     wc = int (length (py_split text));
                     answer = \<lparr>a_question_id = qid, answer_text = text,
                               duration_seconds = duration, timestamp = t_answer,
                               word_count = wc\<rparr>;
                     detected = detect_persona text duration wc (persona_reply be)
                                  (persona_history st);
                     persona = fst detected;
                     evaluation0 = evaluate parse (evaluation_reply be);
                     star_analysis = check_star_pattern (star_reply be);
                     evaluation1 =
                       dict_set
                         (dict_set (dict_set evaluation0 ''star_analysis'' (PDict star_analysis))
                            ''word_count'' (PInt wc))
                         ''persona'' (PStr (persona_value persona));
                     q_session1 = q_session\<lparr>initial_answer := Some answer,
                                             persona_detected := persona,
                                             evaluation := Some evaluation1\<rparr>;
                     session1 = session\<lparr>questions := (questions session)[j := q_session1]\<rparr>;
                     st1 = st\<lparr>sessions := (sessions st)(sid \<mapsto> session1),
                              persona_history := snd detected\<rparr>
                 in
                   (case session_evaluations st sid of
                      None \<Rightarrow> (Inl KeyError, st1)
                    | Some evaluations \<Rightarrow>
                        let st2 = st1\<lparr>session_evaluations :=
                                         (session_evaluations st1)(sid \<mapsto> evaluations @ [evaluation1])\<rparr>
                        in
                          (case generate_follow_up evaluation1 persona (follow_up_reply be) of
                             Inl e \<Rightarrow> (Inl e, st2)
                           | Inr (Some follow_up) \<Rightarrow>
                               let q_session2 =
                                     q_session1\<lparr>follow_ups := follow_ups q_session1 @
                                        [follow_up_entry follow_up]\<rparr>;
                                   session2 =
                                     session1\<lparr>questions := (questions session1)[j := q_session2]\<rparr>
                               in (Inr \<lparr>success = True, follow_up_question = Some follow_up,
                                         next_question = None, is_interview_complete = False,
                                         message = ''Follow-up question generated''\<rparr>,
                                   st2\<lparr>sessions := (sessions st2)(sid \<mapsto> session2)\<rparr>)
                           | Inr None \<Rightarrow>
                               advance st2 sid session1 ''Answer submitted successfully'' t_end))))"

text \<open>
  \<^verbatim>\<open>submit_followup_answer\<close>: the answer goes into the last follow-up of the current
  question, if it has one, and the cursor always moves on.
\<close>

definition submit_followup_answer ::
  "InterviewService \<Rightarrow> string \<Rightarrow> string \<Rightarrow> real \<Rightarrow> nat
     \<Rightarrow> (py_error + SubmitAnswerResponse) \<times> InterviewService" where
  "submit_followup_answer st sid text duration t_end =
     (case sessions st sid of
        None \<Rightarrow> (Inl ValueError, st)
      | Some session \<Rightarrow>
          (case py_index (questions session) (current_question_index session) of
             None \<Rightarrow> (Inl IndexError, st)
           | Some j \<Rightarrow>
               let q_session = questions session ! j;
                   q_session1 =
                     (if follow_ups q_session = [] then q_session
                      else q_session\<lparr>follow_ups := butlast (follow_ups q_session) @
                             [dict_set (last (follow_ups q_session)) ''answer'' (PStr text)]\<rparr>);
                   session1 = session\<lparr>questions := (questions session)[j := q_session1]\<rparr>
               in advance st sid session1 ''Follow-up answer submitted'' t_end))"

text \<open>
  A call of one of the two submission operations with all it depends on, and the state
  after a sequence of calls. A call that raises leaves the state it had reached.
\<close>

datatype call =
    SubmitAnswer string int string real bool Backend nat nat
  | SubmitFollowup string string real nat

fun do_call ::
  "(string \<Rightarrow> real option) \<Rightarrow> Settings \<Rightarrow> InterviewService \<Rightarrow> call
     \<Rightarrow> (py_error + SubmitAnswerResponse) \<times> InterviewService" where
  "do_call parse cfg st (SubmitAnswer sid qid text duration is_voice be t_answer t_end) =
     submit_answer parse cfg st sid qid text duration is_voice be t_answer t_end"
| "do_call parse cfg st (SubmitFollowup sid text duration t_end) =
     submit_followup_answer st sid text duration t_end"

fun run ::
  "(string \<Rightarrow> real option) \<Rightarrow> Settings \<Rightarrow> InterviewService \<Rightarrow> call list \<Rightarrow> InterviewService" where
  "run parse cfg st [] = st"
| "run parse cfg st (c # cs) = run parse cfg (snd (do_call parse cfg st c)) cs"

section \<open>The formulas of the specification\<close>

text \<open>
  The definitions of this section follow the words of the specification, on typed values,
  to be compared with the code above.
\<close>

text \<open>
  The overall score of a report: confidence * 0.25 + technical * 0.25 + communication * 0.25
  + narrative * 0.15 + behavioural * 0.10.
\<close>

definition weighted_overall :: "ScoreBreakdown \<Rightarrow> real" where
  "weighted_overall s =
     confidence s * 0.25 + technical_depth s * 0.25 + communication s * 0.25
     + star_method_usage s * 0.15 + behavioral_clarity s * 0.10"

text \<open>
  The narrative score, on the four components as pairs of a presence flag and a quality
  rating: ten points for each present component; for each present component
  (quality / 5) * 15 points; the sum of the two, capped at 100.
\<close>

definition presence_points :: "(bool \<times> real) list \<Rightarrow> real" where
  "presence_points components = 10 * real (length (filter fst components))"

definition quality_points :: "(bool \<times> real) list \<Rightarrow> real" where
  "quality_points components =
     sum_list (map (\<lambda>(present, quality). if present then quality / 5 * 15 else 0) components)"

definition narrative_score :: "(bool \<times> real) list \<Rightarrow> real" where
  "narrative_score components =
     min 100 (presence_points components + quality_points components)"

text \<open>
  How a parsed analysis is read as such components: a component is present when its flag is
  true in Python's sense, its quality is the number under its quality key (0 without the
  key), and the quality of an absent component does not matter. There is no such reading
  when the quality of a present component is not a number, or is an \<^verbatim>\<open>int\<close> too large to
  divide into a float.
\<close>

definition quality_number :: "pyval \<Rightarrow> real option" where
  "quality_number v =
     (case v of
        PInt n \<Rightarrow> if 5 * float_limit \<le> \<bar>n\<bar> then None else Some (real_of_int n)
      | _ \<Rightarrow> py_number v)"

definition component_view :: "pydict \<Rightarrow> string \<Rightarrow> (bool \<times> real) option" where
  "component_view analysis c =
     (if component_present analysis c
      then (case quality_number (dict_get analysis (c @ ''_quality'') (PInt 0)) of
              None \<Rightarrow> None
            | Some quality \<Rightarrow> Some (True, quality))
      else Some (False, 0))"

fun star_view :: "pydict \<Rightarrow> string list \<Rightarrow> (bool \<times> real) list option" where
  "star_view analysis [] = Some []"
| "star_view analysis (c # cs) =
     (case component_view analysis c of
        None \<Rightarrow> None
      | Some x \<Rightarrow> (case star_view analysis cs of None \<Rightarrow> None | Some xs \<Rightarrow> Some (x # xs)))"

text \<open>
  The type of a follow-up, by the first rule that matches: off topic, redirect; relevance
  below 60, probe; a confused persona, hint; confidence above 80, challenge; technical
  depth below 60, probe; otherwise probe.
\<close>

definition follow_up_type_rule :: "bool \<Rightarrow> real \<Rightarrow> PersonaType \<Rightarrow> real \<Rightarrow> real \<Rightarrow> string" where
  "follow_up_type_rule on_topic relevance persona confidence_score depth =
     (if \<not> on_topic then ''redirect''
      else if relevance < 60 then ''probe''
      else if persona = CONFUSED then ''hint''
      else if 80 < confidence_score then ''challenge''
      else if depth < 60 then ''probe''
      else ''probe'')"

section \<open>Example inputs\<close>

text \<open>
  The r\'esum\'e of the repository's tests (tests/test\_interview\_logic.py), and the service
  after an interview was started for it while the backend was failing.
\<close>

definition sample_resume_data :: ResumeData where
  "sample_resume_data =
     \<lparr>resume_name = Some ''John Doe'',
      skills = [\<lparr>skill_name = ''Python''\<rparr>, \<lparr>skill_name = ''JavaScript''\<rparr>],
      experiences = [\<lparr>company = ''Tech Corp'', title = ''Software Engineer''\<rparr>]\<rparr>"

definition started_service :: InterviewService where
  "started_service =
     snd (start_interview default_settings new_service ''test-session-456'' sample_resume_data
            ''Software Engineer'' None 0)"

definition failing_backend :: Backend where
  "failing_backend =
     \<lparr>persona_reply = None, evaluation_reply = None, star_reply = None,
      follow_up_reply = None\<rparr>"

text \<open>
  The analysis that the checker's prompt shows to the backend (star\_checker.py), and the
  evaluation of the specification's follow-up example.
\<close>

definition example_analysis :: pydict where
  "example_analysis =
     [(''situation_present'', PBool True), (''situation_quote'', PStr ''relevant quote here''),
      (''situation_quality'', PInt 4),
      (''task_present'', PBool True), (''task_quote'', PStr ''relevant quote here''),
      (''task_quality'', PInt 3),
      (''action_present'', PBool True), (''action_quote'', PStr ''relevant quote here''),
      (''action_quality'', PInt 5),
      (''result_present'', PBool False), (''result_quote'', PStr []),
      (''result_quality'', PInt 0),
      (''feedback'', PStr ''Detailed feedback about STAR usage...'')]"

definition example_evaluation :: pydict where
  "example_evaluation =
     [(''relevance_score'', PFloat 90), (''confidence_score'', PFloat 40),
      (''technical_depth_score'', PFloat 85), (''clarity_score'', PFloat 95),
      (''is_on_topic'', PBool True), (''strengths'', PList []), (''weaknesses'', PList []),
      (''feedback'', PStr ''Good.''), (''needs_follow_up'', PBool True),
      (''follow_up_reason'', PStr ''Need to probe deeper on architectural decisions'')]"

section \<open>The invariant of a session\<close>

text \<open>
  What the submission operations keep true of a session: the cursor stays within the
  question list, the status is \<^verbatim>\<open>completed\<close> exactly when the cursor has reached the number
  of questions, and the end time is set exactly when the status is \<^verbatim>\<open>completed\<close>.
\<close>

definition session_inv :: "InterviewSession \<Rightarrow> bool" where
  "session_inv s =
     (0 \<le> current_question_index s
      \<and> current_question_index s \<le> int (length (questions s))
      \<and> (status s = ''completed'') = (current_question_index s = int (length (questions s)))
      \<and> (end_time s \<noteq> None) = (status s = ''completed''))"

text \<open>
  The two ways a submission leaves a session of the service: its progress (the number of
  questions, the cursor, the status and the end time) stays as it was, or the cursor, which
  was at a question, moves on by one and the interview completes at the time \<open>now\<close> if that
  was the last question.
\<close>

definition stays :: "InterviewSession \<Rightarrow> InterviewSession \<Rightarrow> bool" where
  "stays s s' =
     (length (questions s') = length (questions s)
      \<and> current_question_index s' = current_question_index s
      \<and> status s' = status s \<and> end_time s' = end_time s)"

definition moves :: "nat \<Rightarrow> InterviewSession \<Rightarrow> InterviewSession \<Rightarrow> bool" where
  "moves now s s' =
     (length (questions s') = length (questions s)
      \<and> py_index (questions s) (current_question_index s) \<noteq> None
      \<and> current_question_index s' = current_question_index s + 1
      \<and> (if int (length (questions s)) \<le> current_question_index s + 1
          then status s' = ''completed'' \<and> end_time s' = Some now
          else status s' = status s \<and> end_time s' = end_time s))"

text \<open>The session that \<open>advance\<close> stores.\<close>

definition advanced :: "InterviewSession \<Rightarrow> nat \<Rightarrow> InterviewSession" where
  "advanced session now =
     (if int (length (questions session)) \<le> current_question_index session + 1
      then session\<lparr>current_question_index := current_question_index session + 1,
                   status := ''completed'', end_time := Some now\<rparr>
      else session\<lparr>current_question_index := current_question_index session + 1\<rparr>)"

text \<open>
  The started interview after five follow-up submissions, one for each question; and a
  parser of \<^verbatim>\<open>float\<close> that accepts no string, for the examples where no string is parsed.
\<close>

definition no_float :: "string \<Rightarrow> real option" where
  "no_float s = None"

definition followup_call :: call where
  "followup_call = SubmitFollowup ''test-session-456'' ''That is all.'' 20 99"

definition completed_service :: InterviewService where
  "completed_service =
     run no_float default_settings started_service
       [followup_call, followup_call, followup_call, followup_call, followup_call]"

definition completed_session :: InterviewSession where
  "completed_session = the (sessions completed_service ''test-session-456'')"

section \<open>Theorems\<close>

subsection \<open>Lists and slices\<close>

lemma py_index_at_end: "py_index xs (int (length xs)) = None"
  by (simp add: py_index_def)

lemma py_index_in_range:
  "0 \<le> i \<Longrightarrow> py_index xs i \<noteq> None \<Longrightarrow> i < int (length xs)"
  by (simp add: py_index_def split: if_splits)

lemma length_py_take:
  "0 \<le> n \<Longrightarrow> n \<le> int (length xs) \<Longrightarrow> int (length (py_take n xs)) = n"
  by (simp add: py_take_def)

lemma length_pad_questions:
  "int (length (pad_questions n role qs)) = max n (int (length qs))"
proof (induction n role qs rule: pad_questions.induct)
  case (1 n role qs)
  show ?case
  proof (cases "int (length qs) < n")
    case True
    then show ?thesis
      using "1.IH" by (subst pad_questions.simps) simp
  next
    case False
    then show ?thesis
      by (subst pad_questions.simps) simp
  qed
qed

text \<open>
  The number of questions: the five generic ones when the whole batch fails, and exactly
  \<open>TOTAL_QUESTIONS\<close> otherwise.
\<close>

lemma length_generate_questions:
  assumes "0 \<le> TOTAL_QUESTIONS cfg"
  shows "length (generate_questions cfg role reply) = 5
         \<or> int (length (generate_questions cfg role reply)) = TOTAL_QUESTIONS cfg"
proof -
  have "int (length (py_take (TOTAL_QUESTIONS cfg)
                      (pad_questions (TOTAL_QUESTIONS cfg) role qs)))
        = TOTAL_QUESTIONS cfg" for qs
    using assms by (intro length_py_take) (simp_all add: length_pad_questions)
  then show ?thesis
    by (simp add: generate_questions_def get_fallback_questions_def
        split: option.splits pyval.splits)
qed

subsection \<open>The session of a submission\<close>

lemma advance_sessions:
  "sessions (snd (advance st sid session msg now)) sid = Some (advanced session now)"
  by (simp add: advance_def advanced_def Let_def split: option.splits)

lemma advance_frame:
  "sid' \<noteq> sid \<Longrightarrow> sessions (snd (advance st sid' session msg now)) sid = sessions st sid"
  by (simp add: advance_def Let_def split: option.splits)

lemma submit_answer_frame:
  "sid' \<noteq> sid \<Longrightarrow>
   sessions (snd (submit_answer parse cfg st sid' qid ans duration is_voice be t_answer t_end)) sid
     = sessions st sid"
  by (simp add: submit_answer_def Let_def advance_frame split: option.splits sum.splits)

lemma submit_followup_frame:
  "sid' \<noteq> sid \<Longrightarrow>
   sessions (snd (submit_followup_answer st sid' ans duration t_end)) sid = sessions st sid"
  by (simp add: submit_followup_answer_def Let_def advance_frame split: option.splits)

lemma submit_answer_progress:
  assumes "sessions st sid = Some s"
  shows "case sessions (snd (submit_answer parse cfg st sid qid ans duration is_voice be
                               t_answer t_end)) sid of
           None \<Rightarrow> False
         | Some s' \<Rightarrow> stays s s' \<or> moves t_end s s'"
  using assms
  by (auto simp: submit_answer_def Let_def advance_sessions advanced_def stays_def moves_def
      split: option.splits sum.splits)

lemma submit_followup_progress:
  assumes "sessions st sid = Some s"
  shows "case sessions (snd (submit_followup_answer st sid ans duration t_end)) sid of
           None \<Rightarrow> False
         | Some s' \<Rightarrow> stays s s' \<or> moves t_end s s'"
  using assms
  by (auto simp: submit_followup_answer_def Let_def advance_sessions advanced_def stays_def
      moves_def split: option.splits sum.splits)

text \<open>At a cursor outside the question list both operations raise and change nothing.\<close>

lemma submit_answer_no_slot:
  assumes "sessions st sid = Some s"
    and "py_index (questions s) (current_question_index s) = None"
    and "\<not> real_of_int (ANSWER_TIME_SECONDS cfg) < duration"
  shows "submit_answer parse cfg st sid qid ans duration is_voice be t_answer t_end
         = (Inl IndexError, st)"
  using assms by (simp add: submit_answer_def)

lemma submit_followup_no_slot:
  assumes "sessions st sid = Some s"
    and "py_index (questions s) (current_question_index s) = None"
  shows "submit_followup_answer st sid ans duration t_end = (Inl IndexError, st)"
  using assms by (simp add: submit_followup_answer_def)

text \<open>
  Any call leaves a session of the service in place; its progress stays or moves, and the
  session is untouched when its cursor is outside the question list.
\<close>

lemma do_call_session:
  assumes "sessions st sid = Some s"
  shows "\<exists>s'. sessions (snd (do_call parse cfg st c)) sid = Some s'
           \<and> (py_index (questions s) (current_question_index s) = None \<longrightarrow> s' = s)
           \<and> (stays s s' \<or> (\<exists>now. moves now s s'))"
proof (cases c)
  case (SubmitAnswer sid' qid ans duration is_voice be t_answer t_end)
  show ?thesis
  proof (cases "sid' = sid")
    case True
    have unchanged: "py_index (questions s) (current_question_index s) = None \<Longrightarrow>
        snd (submit_answer parse cfg st sid qid ans duration is_voice be t_answer t_end) = st"
      using assms by (simp add: submit_answer_def)
    show ?thesis
      using submit_answer_progress [OF assms, where parse = parse and cfg = cfg and qid = qid
          and ans = ans and duration = duration and is_voice = is_voice and be = be
          and t_answer = t_answer and t_end = t_end] unchanged assms SubmitAnswer True
      by (auto split: option.splits simp: stays_def)
  next
    case False
    then show ?thesis
      using assms SubmitAnswer by (auto simp: submit_answer_frame stays_def)
  qed
next
  case (SubmitFollowup sid' ans duration t_end)
  show ?thesis
  proof (cases "sid' = sid")
    case True
    have unchanged: "py_index (questions s) (current_question_index s) = None \<Longrightarrow>
        snd (submit_followup_answer st sid ans duration t_end) = st"
      using assms by (simp add: submit_followup_answer_def)
    show ?thesis
      using submit_followup_progress [OF assms, where ans = ans and duration = duration
          and t_end = t_end] unchanged assms
        SubmitFollowup True
      by (auto split: option.splits simp: stays_def)
  next
    case False
    then show ?thesis
      using assms SubmitFollowup by (auto simp: submit_followup_frame stays_def)
  qed
qed

lemma session_inv_step:
  assumes "session_inv s" and "stays s s' \<or> (\<exists>now. moves now s s')"
  shows "session_inv s'"
  using assms
  by (auto simp: session_inv_def stays_def moves_def py_index_def split: if_splits)

lemma session_inv_closed:
  assumes "session_inv s" and "end_time s \<noteq> None"
  shows "py_index (questions s) (current_question_index s) = None"
  using assms by (auto simp: session_inv_def py_index_def)

lemma run_snoc: "run parse cfg st (calls @ [c]) = snd (do_call parse cfg (run parse cfg st calls) c)"
  by (induction calls arbitrary: st) simp_all

lemma run_session_inv:
  assumes "sessions st sid = Some s" and "session_inv s"
  shows "\<exists>s'. sessions (run parse cfg st calls) sid = Some s' \<and> session_inv s'"
  using assms
proof (induction calls arbitrary: st s)
  case Nil
  then show ?case by simp
next
  case (Cons c calls)
  from do_call_session [OF Cons.prems(1), of parse cfg c]
  obtain s1 where s1: "sessions (snd (do_call parse cfg st c)) sid = Some s1"
    and step: "stays s s1 \<or> (\<exists>now. moves now s s1)"
    by blast
  have "session_inv s1"
    using Cons.prems(2) step by (rule session_inv_step)
  with s1 show ?case
    using Cons.IH by simp
qed

lemma start_interview_session_inv:
  assumes "1 \<le> TOTAL_QUESTIONS cfg"
  shows "\<exists>s. sessions (snd (start_interview cfg st sid resume_data role reply now)) sid = Some s
           \<and> session_inv s"
proof -
  have "generate_questions cfg role reply \<noteq> []"
    using length_generate_questions [of cfg role reply] assms by auto
  then show ?thesis
    by (simp add: start_interview_def Let_def session_inv_def)
qed

subsection \<open>The narrative score has no lower bound\<close>

text \<open>
  C4. The claim: every score the checker derives lies in [0,100], also for out-of-range
  quality values. The code bounds the sum from above only: a present situation component
  of quality -10 scores 10 + (-10 / 5) * 15 = -20, and \<^verbatim>\<open>check_star_pattern\<close> returns the
  analysis with that score.
\<close>

theorem star_score_below_zero:
  "calculate_star_score
     (PDict [(''situation_present'', PBool True), (''situation_quality'', PInt (- 10))])
     = Inr (- 20)
   \<and> dict_get
       (check_star_pattern
          (Some (PDict [(''situation_present'', PBool True),
                        (''situation_quality'', PInt (- 10))])))
       ''score'' PNone
     = PFloat (- 20)"
  by (simp add: check_star_pattern_def calculate_star_score_def star_components_def
      component_present_def dict_get_def dict_set_def float_limit_def)

subsection \<open>Normalization of an evaluation\<close>

text \<open>
  C6. The claim: every parsed object normalizes to score fields in [0,100], a numeric field
  being clamped. \<^verbatim>\<open>float\<close> raises \<^verbatim>\<open>OverflowError\<close> on an \<^verbatim>\<open>int\<close> beyond the range of a float,
  which the handler for \<^verbatim>\<open>ValueError\<close> and \<^verbatim>\<open>TypeError\<close> lets through: the normalization of
  a relevance score of 10 ^ 400 raises, and \<^verbatim>\<open>evaluate\<close> answers with the fallback
  evaluation, where the field is 50 and the other parsed fields are lost.
\<close>

theorem normalize_huge_int_raises:
  "normalize_evaluation parse
     (PDict [(''relevance_score'', PInt (10 ^ 400)), (''clarity_score'', PInt 90)])
     = Inl OverflowError
   \<and> evaluate parse
       (Some (PDict [(''relevance_score'', PInt (10 ^ 400)), (''clarity_score'', PInt 90)]))
     = get_fallback_evaluation"
  by (simp add: evaluate_def normalize_evaluation_def evaluation_defaults_def score_keys_def
      dict_set_def float_limit_def)

text \<open>The clamp of one score field survives the rest of the loop.\<close>

lemma clamp_scores_keeps:
  "clamp_scores parse ks ev = Inr ev' \<Longrightarrow>
   \<exists>r. map_of ev k = Some (PFloat r) \<and> 0 \<le> r \<and> r \<le> 100 \<Longrightarrow>
   \<exists>r. map_of ev' k = Some (PFloat r) \<and> 0 \<le> r \<and> r \<le> 100"
proof (induction ks arbitrary: ev)
  case Nil
  then show ?case by simp
next
  case (Cons key ks)
  show ?case
  proof (cases "key = k")
    case True
    then show ?thesis
      using Cons.prems Cons.IH
      by (auto simp: dict_set_def update_conv' split: option.splits sum.splits if_splits)
  next
    case False
    then show ?thesis
      using Cons.prems Cons.IH
      by (auto simp: dict_set_def update_conv' split: option.splits sum.splits if_splits)
  qed
qed

lemma clamp_scores_in_range:
  "clamp_scores parse ks ev = Inr ev' \<Longrightarrow> k \<in> set ks \<Longrightarrow>
   \<exists>r. map_of ev' k = Some (PFloat r) \<and> 0 \<le> r \<and> r \<le> 100"
proof (induction ks arbitrary: ev)
  case Nil
  then show ?case by simp
next
  case (Cons key ks)
  show ?case
  proof (cases "key = k")
    case True
    then show ?thesis
      using Cons.prems(1)
      by (auto simp: dict_set_def update_conv' split: option.splits sum.splits if_splits
          dest!: clamp_scores_keeps [where k = k])
  next
    case False
    then show ?thesis
      using Cons.prems Cons.IH
      by (auto split: option.splits sum.splits if_splits)
  qed
qed

text \<open>
  What holds of every parsed object and every backend failure: each of the four score
  fields of the evaluation that \<^verbatim>\<open>evaluate\<close> returns is a float in [0,100].
\<close>

lemma evaluate_scores_in_range:
  assumes "k \<in> set score_keys"
  shows "\<exists>r. map_of (evaluate parse reply) k = Some (PFloat r) \<and> 0 \<le> r \<and> r \<le> 100"
proof (cases "\<exists>d ev. reply = Some (PDict d) \<and> normalize_evaluation parse (PDict d) = Inr ev")
  case True
  then obtain d ev where r: "reply = Some (PDict d)"
    and n: "normalize_evaluation parse (PDict d) = Inr ev" by blast
  then have "clamp_scores parse score_keys (merge_defaults evaluation_defaults d) = Inr ev"
    by (simp add: normalize_evaluation_def)
  from clamp_scores_in_range [OF this assms] show ?thesis
    using r n by (simp add: evaluate_def)
next
  case False
  then have "evaluate parse reply = get_fallback_evaluation"
    by (auto simp: evaluate_def normalize_evaluation_def split: option.splits sum.splits pyval.splits)
  then show ?thesis
    using assms by (auto simp: get_fallback_evaluation_def score_keys_def)
qed

subsection \<open>Question identifiers\<close>

text \<open>
  C9. The claim: the identifiers of the generated questions are exactly 1..N in order, also
  with malformed entries. The conversion loop numbers a question by its position in the
  backend's list and skips a malformed entry, while the padding numbers by the length of the
  list built so far: with a malformed second entry of three the identifiers are
  1, 3, 3, 4, 5.
\<close>

theorem generate_questions_skipped_entry:
  "map question_id
     (generate_questions default_settings ''Software Engineer''
        (Some (PDict [(''questions'',
                       PList [PDict [(''question_text'', PStr ''Q1'')],
                              PDict [(''text'', PStr ''Q2'')],
                              PDict [(''question_text'', PStr ''Q3'')]])])))
   = [1, 3, 3, 4, 5]"
  by (simp add: generate_questions_def default_settings_def question_items_def py_take_def
      dict_get_def make_question_def question_type_of_def optional_str_of_def str_list_of_def
      create_generic_question_def pad_questions.simps Let_def)

subsection \<open>The scores of an empty report\<close>

text \<open>
  C1, as the claim states it: the overall score of the default scores is the weighted
  combination of the other five. It is not: the combination of the defaults is 42.5, and the
  default overall score is 50.
\<close>

theorem empty_report_overall_not_weighted:
  "\<not> (case calculate_scores [] of
         Inl e \<Rightarrow> False
       | Inr s \<Rightarrow> overall s = weighted_overall s)"
  by (simp add: calculate_scores_def make_score_breakdown_def in_range_def weighted_overall_def)

text \<open>
  C1, amended: report aggregation over an empty evaluation list returns, without raising,
  the fixed default scores: confidence 50, communication 50, technical depth 50, narrative
  usage 0, behavioural clarity 50, and an overall score of 50, which is a constant of its own
  (the weighted combination of the other defaults is 42.5).
\<close>

theorem empty_report_default_scores:
  "calculate_scores []
     = Inr \<lparr>confidence = 50, communication = 50, technical_depth = 50,
            star_method_usage = 0, behavioral_clarity = 50, overall = 50\<rparr>
   \<and> weighted_overall
       \<lparr>confidence = 50, communication = 50, technical_depth = 50,
        star_method_usage = 0, behavioral_clarity = 50, overall = 50\<rparr> = 42.5"
  by (simp add: calculate_scores_def make_score_breakdown_def in_range_def weighted_overall_def)

subsection \<open>The persona of a two-word answer\<close>

text \<open>
  C8. The claim: a two-word answer is classified \<^verbatim>\<open>edge_case\<close> whatever the backend does.
  The rule-based stage says \<^verbatim>\<open>edge_case\<close>, but the escalation to the backend overwrites it
  with \<^verbatim>\<open>normal\<close> when the backend fails or its reply names no persona: so for the two-word
  answer, and so for the one-word answer of the repository's test
  (tests/test\_persona\_detector.py), which expects \<^verbatim>\<open>edge_case\<close>.
\<close>

theorem two_words_classified_normal:
  "rule_based_detection ''ok fine'' 5 2 = EDGE_CASE
   \<and> detect_persona ''ok fine'' 5 2 None [] = (NORMAL, [NORMAL])
   \<and> detect_persona ''ok fine'' 5 2 (Some ''NORMAL'') [] = (NORMAL, [NORMAL])
   \<and> detect_persona ''asdfasdf'' 5 1 None [] = (NORMAL, [NORMAL])"
  by (simp add: detect_persona_def rule_based_detection_def llm_based_detection_def strip_def
      upper_def upper_char_def is_space_def)

text \<open>
  What the code does for every answer of word count 2: the rule-based stage yields
  \<^verbatim>\<open>edge_case\<close>, and the classification returns, and records in the history, whatever the
  escalation to the backend yields.
\<close>

lemma detect_persona_escalates:
  "rule_based_detection answer duration 2 = EDGE_CASE
   \<and> detect_persona answer duration 2 reply history
       = (llm_based_detection reply, history @ [llm_based_detection reply])"
  by (simp add: detect_persona_def rule_based_detection_def Let_def)

subsection \<open>An answer over the time limit\<close>

text \<open>
  C3. For every existing session, \<^verbatim>\<open>submit_answer\<close> with a duration greater than the
  configured limit returns a response with \<^verbatim>\<open>success = False\<close> and leaves the whole state
  of the service as it was: the session (its cursor, its question slots, its status and
  end time), the evaluation lists and the persona history.
\<close>

theorem submit_answer_over_limit:
  assumes "sessions st sid = Some session"
    and "real_of_int (ANSWER_TIME_SECONDS cfg) < duration"
  shows "submit_answer parse cfg st sid qid text duration is_voice be t_answer t_end
         = (Inr \<lparr>success = False, follow_up_question = None, next_question = None,
                  is_interview_complete = False,
                  message = ''Answer exceeded time limit. Moving to next question.''\<rparr>,
            st)"
  using assms by (simp add: submit_answer_def)

theorem submit_answer_over_limit_witness:
  "sessions started_service ''test-session-456''
     = Some (fst (start_interview default_settings new_service ''test-session-456''
                    sample_resume_data ''Software Engineer'' None 0))
   \<and> real_of_int (ANSWER_TIME_SECONDS default_settings) < 181
   \<and> submit_answer no_float default_settings started_service ''test-session-456'' 1
        ''I worked on a project.'' 181 False failing_backend 7 8
      = (Inr \<lparr>success = False, follow_up_question = None, next_question = None,
               is_interview_complete = False,
               message = ''Answer exceeded time limit. Moving to next question.''\<rparr>,
         started_service)"
proof -
  have found: "sessions started_service ''test-session-456''
     = Some (fst (start_interview default_settings new_service ''test-session-456''
                    sample_resume_data ''Software Engineer'' None 0))"
    by (simp add: started_service_def start_interview_def Let_def)
  have late: "real_of_int (ANSWER_TIME_SECONDS default_settings) < 181"
    by (simp add: default_settings_def)
  show ?thesis
    using found late submit_answer_over_limit [OF found late, where parse = no_float] by simp
qed

subsection \<open>Completion of a session\<close>

text \<open>
  C2. Take a service in which an interview was started for a session with at least one
  question configured, and any sequence of calls of \<^verbatim>\<open>submit_answer\<close> and
  \<^verbatim>\<open>submit_followup_answer\<close> (for any session, with any arguments, backend behaviour and
  clock) followed by one more call \<open>c\<close>. The session is still there before and after \<open>c\<close>;
  its status is \<^verbatim>\<open>completed\<close> exactly when its cursor has reached the number of its
  questions; its end time is set exactly when its status is \<^verbatim>\<open>completed\<close>; once the end
  time is set the call leaves the session as it is, so the end time is never set again; and
  a call that sets the end time is one that makes the status \<^verbatim>\<open>completed\<close>.
\<close>

theorem completed_iff_cursor_at_end:
  assumes "1 \<le> TOTAL_QUESTIONS cfg"
  shows "\<exists>s s'.
           sessions (run parse cfg (snd (start_interview cfg before sid resume_data role reply now))
                       calls) sid = Some s
         \<and> sessions (run parse cfg (snd (start_interview cfg before sid resume_data role reply now))
                       (calls @ [c])) sid = Some s'
         \<and> (status s = ''completed'') = (current_question_index s = int (length (questions s)))
         \<and> (end_time s \<noteq> None) = (status s = ''completed'')
         \<and> (end_time s \<noteq> None \<longrightarrow> s' = s)
         \<and> (end_time s = None \<and> end_time s' \<noteq> None \<longrightarrow>
              status s \<noteq> ''completed'' \<and> status s' = ''completed''
              \<and> current_question_index s' = int (length (questions s')))"
proof -
  let ?st1 = "snd (start_interview cfg before sid resume_data role reply now)"
  obtain s0 where s0: "sessions ?st1 sid = Some s0" "session_inv s0"
    using start_interview_session_inv [OF assms, where st = before and sid = sid
        and resume_data = resume_data and role = role and reply = reply and now = now]
    by (elim exE conjE) (rule that)
  obtain s where s: "sessions (run parse cfg ?st1 calls) sid = Some s" "session_inv s"
    using run_session_inv [OF s0, where parse = parse and cfg = cfg and calls = calls]
    by (elim exE conjE) (rule that)
  obtain s' where s': "sessions (snd (do_call parse cfg (run parse cfg ?st1 calls) c)) sid = Some s'"
    and untouched: "py_index (questions s) (current_question_index s) = None \<longrightarrow> s' = s"
    and step: "stays s s' \<or> (\<exists>t. moves t s s')"
    using do_call_session [OF s(1), where parse = parse and cfg = cfg and c = c]
    by (elim exE conjE) (rule that)
  have inv': "session_inv s'"
    using s(2) step by (rule session_inv_step)
  have after: "sessions (run parse cfg ?st1 (calls @ [c])) sid = Some s'"
    using s' by (simp add: run_snoc)
  have at_end: "(status s = ''completed'') = (current_question_index s = int (length (questions s)))"
    using s(2) by (simp add: session_inv_def)
  have ended: "(end_time s \<noteq> None) = (status s = ''completed'')"
    using s(2) by (simp add: session_inv_def)
  have closed: "end_time s \<noteq> None \<longrightarrow> s' = s"
    using session_inv_closed [OF s(2)] untouched by blast
  have once: "end_time s = None \<and> end_time s' \<noteq> None \<longrightarrow>
              status s \<noteq> ''completed'' \<and> status s' = ''completed''
              \<and> current_question_index s' = int (length (questions s'))"
    using s(2) inv' by (auto simp: session_inv_def)
  show ?thesis
    apply (rule exI [of _ s])
    apply (rule exI [of _ s'])
    using s(1) after at_end ended closed once
    apply (intro conjI)
         apply assumption+
    done
qed

theorem completed_iff_cursor_at_end_witness:
  "1 \<le> TOTAL_QUESTIONS default_settings
   \<and> (\<exists>s s'.
           sessions (run no_float default_settings
                       (snd (start_interview default_settings new_service ''test-session-456''
                               sample_resume_data ''Software Engineer'' None 0))
                       [followup_call, followup_call])
                    ''test-session-456'' = Some s
         \<and> sessions (run no_float default_settings
                       (snd (start_interview default_settings new_service ''test-session-456''
                               sample_resume_data ''Software Engineer'' None 0))
                       ([followup_call, followup_call] @ [followup_call]))
                    ''test-session-456'' = Some s'
         \<and> (status s = ''completed'') = (current_question_index s = int (length (questions s)))
         \<and> (end_time s \<noteq> None) = (status s = ''completed'')
         \<and> (end_time s \<noteq> None \<longrightarrow> s' = s)
         \<and> (end_time s = None \<and> end_time s' \<noteq> None \<longrightarrow>
              status s \<noteq> ''completed'' \<and> status s' = ''completed''
              \<and> current_question_index s' = int (length (questions s'))))"
proof -
  have configured: "1 \<le> TOTAL_QUESTIONS default_settings"
    by (simp add: default_settings_def)
  show ?thesis
    using configured
      completed_iff_cursor_at_end [OF configured, where parse = no_float and before = new_service
        and sid = "''test-session-456''" and resume_data = sample_resume_data
        and role = "''Software Engineer''" and reply = None and now = 0
        and calls = "[followup_call, followup_call]" and c = followup_call]
    by blast
qed

subsection \<open>Submitting to a completed session\<close>

text \<open>
  C10. On a session whose cursor equals the number of its questions, \<^verbatim>\<open>submit_answer\<close>
  with a duration within the limit and \<^verbatim>\<open>submit_followup_answer\<close> both raise
  \<^verbatim>\<open>IndexError\<close> when they fetch the current question slot, and leave the service as it was:
  there is no rejection response. That is the state of every session whose status is
  \<^verbatim>\<open>completed\<close>, in a service where the interview was started with at least one question
  configured and any submissions followed.
\<close>

theorem submit_to_completed_raises:
  "(sessions st sid = Some session
      \<and> current_question_index session = int (length (questions session))
      \<and> \<not> real_of_int (ANSWER_TIME_SECONDS cfg) < duration
    \<longrightarrow> submit_answer parse cfg st sid qid ans duration is_voice be t_answer t_end
          = (Inl IndexError, st)
        \<and> submit_followup_answer st sid later_ans later_duration later_end = (Inl IndexError, st))
   \<and> (1 \<le> TOTAL_QUESTIONS cfg
      \<and> sessions (run parse cfg (snd (start_interview cfg before sid resume_data role reply now))
                    calls) sid = Some s
      \<and> status s = ''completed''
    \<longrightarrow> current_question_index s = int (length (questions s)))"
proof (intro conjI impI)
  assume a: "sessions st sid = Some session
      \<and> current_question_index session = int (length (questions session))
      \<and> \<not> real_of_int (ANSWER_TIME_SECONDS cfg) < duration"
  then have no_slot: "py_index (questions session) (current_question_index session) = None"
    by (simp add: py_index_at_end)
  show "submit_answer parse cfg st sid qid ans duration is_voice be t_answer t_end
          = (Inl IndexError, st)"
    using a no_slot by (simp add: submit_answer_no_slot)
  show "submit_followup_answer st sid later_ans later_duration later_end = (Inl IndexError, st)"
    using a no_slot by (simp add: submit_followup_no_slot)
next
  assume b: "1 \<le> TOTAL_QUESTIONS cfg
      \<and> sessions (run parse cfg (snd (start_interview cfg before sid resume_data role reply now))
                    calls) sid = Some s
      \<and> status s = ''completed''"
  obtain s0 where s0: "sessions (snd (start_interview cfg before sid resume_data role reply now)) sid
      = Some s0" "session_inv s0"
    using start_interview_session_inv [OF conjunct1 [OF b], where st = before and sid = sid
        and resume_data = resume_data and role = role and reply = reply and now = now]
    by (elim exE conjE) (rule that)
  have "session_inv s"
    using run_session_inv [OF s0, where parse = parse and cfg = cfg and calls = calls] b
    by simp
  then show "current_question_index s = int (length (questions s))"
    using b by (simp add: session_inv_def)
qed

theorem submit_to_completed_raises_witness:
  "sessions completed_service ''test-session-456'' = Some completed_session
   \<and> current_question_index completed_session = int (length (questions completed_session))
   \<and> \<not> real_of_int (ANSWER_TIME_SECONDS default_settings) < 30
   \<and> submit_answer no_float default_settings completed_service ''test-session-456'' 5
        ''One more thing.'' 30 False failing_backend 100 101
      = (Inl IndexError, completed_service)
   \<and> submit_followup_answer completed_service ''test-session-456'' ''One more thing.'' 30 101
      = (Inl IndexError, completed_service)
   \<and> 1 \<le> TOTAL_QUESTIONS default_settings
   \<and> sessions (run no_float default_settings
                 (snd (start_interview default_settings new_service ''test-session-456''
                         sample_resume_data ''Software Engineer'' None 0))
                 [followup_call, followup_call, followup_call, followup_call, followup_call])
        ''test-session-456'' = Some completed_session
   \<and> status completed_session = ''completed''"
proof -
  have evaluated:
    "(case sessions completed_service ''test-session-456'' of
        None \<Rightarrow> False
      | Some s \<Rightarrow> status s = ''completed''
          \<and> current_question_index s = int (length (questions s)))"
    by code_simp
  have found: "sessions completed_service ''test-session-456'' = Some completed_session"
    using evaluated unfolding completed_session_def
    by (cases "sessions completed_service ''test-session-456''") simp_all
  have completed: "status completed_session = ''completed''"
    and at_end: "current_question_index completed_session
                 = int (length (questions completed_session))"
    using evaluated unfolding found by simp_all
  have within: "\<not> real_of_int (ANSWER_TIME_SECONDS default_settings) < 30"
    by (simp add: default_settings_def)
  have configured: "1 \<le> TOTAL_QUESTIONS default_settings"
    by (simp add: default_settings_def)
  have reached:
    "sessions (run no_float default_settings
                 (snd (start_interview default_settings new_service ''test-session-456''
                         sample_resume_data ''Software Engineer'' None 0))
                 [followup_call, followup_call, followup_call, followup_call, followup_call])
        ''test-session-456'' = Some completed_session"
    using found unfolding completed_service_def started_service_def .
  note claim =
    submit_to_completed_raises [where st = completed_service and sid = "''test-session-456''"
      and session = completed_session and cfg = default_settings and duration = 30
      and parse = no_float and qid = 5 and ans = "''One more thing.''" and is_voice = False
      and be = failing_backend and t_answer = 100 and t_end = 101
      and later_ans = "''One more thing.''" and later_duration = 30 and later_end = 101]
  have raises:
    "submit_answer no_float default_settings completed_service ''test-session-456'' 5
        ''One more thing.'' 30 False failing_backend 100 101
      = (Inl IndexError, completed_service)
     \<and> submit_followup_answer completed_service ''test-session-456'' ''One more thing.'' 30 101
      = (Inl IndexError, completed_service)"
    by (rule conjunct1 [OF claim, THEN mp]) (intro conjI found at_end within)
  show ?thesis
    using found at_end within raises configured reached completed by (intro conjI) simp_all
qed

subsection \<open>The narrative score formula\<close>


text \<open>
  A present component whose quality is not a number makes the scoring raise, and the
  checker answers with the fallback analysis, whose score is 0.
\<close>

lemma star_quality_not_a_number:
  "calculate_star_score
     (PDict [(''situation_present'', PBool True), (''situation_quality'', PNone)])
     = Inl TypeError
   \<and> check_star_pattern
       (Some (PDict [(''situation_present'', PBool True), (''situation_quality'', PNone)]))
     = get_fallback_analysis"
  by (simp add: check_star_pattern_def calculate_star_score_def star_components_def
      component_present_def dict_get_def)

text \<open>
  On the scale the formula of the specification is what the code computes. The next three
  lemmas read the two loops through the typed components.
\<close>

lemma py_truediv_quality:
  "quality_number v = Some quality \<Longrightarrow> py_truediv v 5 = Inr (quality / 5)"
  by (cases v) (auto simp: quality_number_def split: if_splits)

lemma presence_loop_view:
  "star_view analysis cs = Some v \<Longrightarrow>
   real_of_int (presence_loop analysis cs acc) = real_of_int acc + presence_points v"
proof (induction cs arbitrary: acc v)
  case Nil
  then show ?case by (simp add: presence_points_def)
next
  case (Cons c cs)
  then obtain x xs where x: "component_view analysis c = Some x"
    and xs: "star_view analysis cs = Some xs" and v: "v = x # xs"
    by (auto split: option.splits)
  have "fst x = component_present analysis c"
    using x by (auto simp: component_view_def split: if_splits option.splits)
  then show ?case
    using Cons.IH [OF xs] v by (simp add: presence_points_def)
qed

lemma quality_loop_view:
  "star_view analysis cs = Some v \<Longrightarrow>
   quality_loop analysis cs acc = Inr (acc + quality_points v)"
proof (induction cs arbitrary: acc v)
  case Nil
  then show ?case by (simp add: quality_points_def)
next
  case (Cons c cs)
  then obtain x xs where x: "component_view analysis c = Some x"
    and xs: "star_view analysis cs = Some xs" and v: "v = x # xs"
    by (auto split: option.splits)
  show ?case
  proof (cases "component_present analysis c")
    case True
    then obtain quality where q: "quality_number (dict_get analysis (c @ ''_quality'') (PInt 0))
        = Some quality" and xq: "x = (True, quality)"
      using x by (auto simp: component_view_def split: option.splits)
    show ?thesis
      using True Cons.IH [OF xs] v xq py_truediv_quality [OF q]
      by (simp add: quality_points_def)
  next
    case False
    then have "x = (False, 0)"
      using x by (simp add: component_view_def)
    then show ?thesis
      using False Cons.IH [OF xs] v by (simp add: quality_points_def)
  qed
qed

lemma quality_points_on_scale:
  "\<forall>x \<in> set v. 0 \<le> snd x \<and> snd x \<le> 5 \<Longrightarrow>
   0 \<le> quality_points v \<and> quality_points v \<le> 15 * real (length v)"
proof (induction v)
  case Nil
  then show ?case by (simp add: quality_points_def)
next
  case (Cons x v)
  then have "0 \<le> quality_points v \<and> quality_points v \<le> 15 * real (length v)"
    by simp
  moreover have "0 \<le> snd x \<and> snd x \<le> 5"
    using Cons.prems by simp
  ultimately show ?case
    by (cases x) (auto simp: quality_points_def)
qed

text \<open>
  For every parsed analysis that reads as components whose qualities lie on the scale (from
  0 to 5), the score is the narrative score of the specification, with at most 15 quality
  points for each component, and it lies in [0,100]; the analysis of the checker's prompt,
  with situation, task and action present at qualities 4, 3 and 5 and the result absent,
  scores 66.
\<close>

lemma star_score_on_scale:
  assumes "star_view analysis star_components = Some v"
    and "\<forall>x \<in> set v. 0 \<le> snd x \<and> snd x \<le> 5"
  shows "calculate_star_score (PDict analysis) = Inr (narrative_score v)"
    and "0 \<le> narrative_score v" and "narrative_score v \<le> 100"
proof -
  show "calculate_star_score (PDict analysis) = Inr (narrative_score v)"
    using presence_loop_view [OF assms(1), of 0] quality_loop_view [OF assms(1), of 0]
    by (simp add: calculate_star_score_def narrative_score_def)
  have "0 \<le> presence_points v"
    by (simp add: presence_points_def)
  then show "0 \<le> narrative_score v"
    using quality_points_on_scale [OF assms(2)] by (simp add: narrative_score_def)
  show "narrative_score v \<le> 100"
    by (simp add: narrative_score_def)
qed

lemma star_score_example:
  "star_view example_analysis star_components
     = Some [(True, 4), (True, 3), (True, 5), (False, 0)]
   \<and> calculate_star_score (PDict example_analysis) = Inr 66"
  by (simp add: calculate_star_score_def star_components_def component_view_def
      component_present_def dict_get_def quality_number_def float_limit_def
      example_analysis_def)

subsection \<open>The follow-up decision\<close>

text \<open>
  C7. The follow-up decision returns none whenever \<^verbatim>\<open>needs_follow_up\<close> is false (in
  Python's sense, and also when the key is missing). Otherwise the type it selects, for
  every evaluation whose three scores are numbers and every persona, is the one of the first
  matching rule of the specification: \<^verbatim>\<open>_determine_follow_up_type\<close> returns it, and
  \<^verbatim>\<open>generate_follow_up\<close> returns a follow-up of that type with the generated text and the
  evaluation's reason, or none when the generated text is empty.
\<close>

theorem follow_up_decision:
  "(\<not> truthy (dict_get ev ''needs_follow_up'' (PBool False)) \<longrightarrow>
      generate_follow_up ev persona reply = Inr None)
   \<and> (py_number (dict_get ev ''relevance_score'' (PInt 50)) = Some relevance
      \<and> py_number (dict_get ev ''confidence_score'' (PInt 50)) = Some conf
      \<and> py_number (dict_get ev ''technical_depth_score'' (PInt 50)) = Some depth
      \<longrightarrow>
        determine_follow_up_type ev persona
          = Inr (follow_up_type_rule (truthy (dict_get ev ''is_on_topic'' (PBool True)))
                   relevance persona conf depth)
        \<and> (truthy (dict_get ev ''needs_follow_up'' (PBool False))
             \<and> dict_get ev ''follow_up_reason'' (PStr ''Seeking clarification'')
                 = PStr reason
           \<longrightarrow>
             generate_follow_up ev persona reply
               = Inr (if generate_follow_up_text
                           (follow_up_type_rule
                              (truthy (dict_get ev ''is_on_topic'' (PBool True)))
                              relevance persona conf depth) reply = []
                      then None
                      else Some \<lparr>fu_text =
                                   generate_follow_up_text
                                     (follow_up_type_rule
                                        (truthy (dict_get ev ''is_on_topic'' (PBool True)))
                                        relevance persona conf depth) reply,
                                 fu_reason = reason,
                                 fu_type =
                                   follow_up_type_rule
                                     (truthy (dict_get ev ''is_on_topic'' (PBool True)))
                                     relevance persona conf depth\<rparr>)))"
proof (intro conjI impI)
  assume "\<not> truthy (dict_get ev ''needs_follow_up'' (PBool False))"
  then show "generate_follow_up ev persona reply = Inr None"
    by (simp add: generate_follow_up_def)
next
  assume numbers:
    "py_number (dict_get ev ''relevance_score'' (PInt 50)) = Some relevance
      \<and> py_number (dict_get ev ''confidence_score'' (PInt 50)) = Some conf
      \<and> py_number (dict_get ev ''technical_depth_score'' (PInt 50)) = Some depth"
  then show selected: "determine_follow_up_type ev persona
          = Inr (follow_up_type_rule (truthy (dict_get ev ''is_on_topic'' (PBool True)))
                   relevance persona conf depth)"
    by (simp add: determine_follow_up_type_def follow_up_type_rule_def)
  assume "truthy (dict_get ev ''needs_follow_up'' (PBool False))
             \<and> dict_get ev ''follow_up_reason'' (PStr ''Seeking clarification'')
                 = PStr reason"
  then show "generate_follow_up ev persona reply
               = Inr (if generate_follow_up_text
                           (follow_up_type_rule
                              (truthy (dict_get ev ''is_on_topic'' (PBool True)))
                              relevance persona conf depth) reply = []
                      then None
                      else Some \<lparr>fu_text =
                                   generate_follow_up_text
                                     (follow_up_type_rule
                                        (truthy (dict_get ev ''is_on_topic'' (PBool True)))
                                        relevance persona conf depth) reply,
                                 fu_reason = reason,
                                 fu_type =
                                   follow_up_type_rule
                                     (truthy (dict_get ev ''is_on_topic'' (PBool True)))
                                     relevance persona conf depth\<rparr>)"
    using selected by (simp add: generate_follow_up_def Let_def)
qed

theorem follow_up_decision_witness:
  "\<not> truthy (dict_get get_fallback_evaluation ''needs_follow_up'' (PBool False))
   \<and> generate_follow_up get_fallback_evaluation CHATTY (Some ''Why?'') = Inr None
   \<and> py_number (dict_get example_evaluation ''relevance_score'' (PInt 50)) = Some 90
   \<and> py_number (dict_get example_evaluation ''confidence_score'' (PInt 50)) = Some 40
   \<and> py_number (dict_get example_evaluation ''technical_depth_score'' (PInt 50)) = Some 85
   \<and> truthy (dict_get example_evaluation ''needs_follow_up'' (PBool False))
   \<and> dict_get example_evaluation ''follow_up_reason'' (PStr ''Seeking clarification'')
       = PStr ''Need to probe deeper on architectural decisions''
   \<and> determine_follow_up_type example_evaluation NORMAL = Inr ''probe''
   \<and> generate_follow_up example_evaluation NORMAL (Some ''Why?'')
       = Inr (Some \<lparr>fu_text = ''Why?'',
                     fu_reason = ''Need to probe deeper on architectural decisions'',
                     fu_type = ''probe''\<rparr>)"
proof -
  have no_need: "\<not> truthy (dict_get get_fallback_evaluation ''needs_follow_up'' (PBool False))"
    by (simp add: dict_get_def get_fallback_evaluation_def)
  have numbers:
    "py_number (dict_get example_evaluation ''relevance_score'' (PInt 50)) = Some 90
     \<and> py_number (dict_get example_evaluation ''confidence_score'' (PInt 50)) = Some 40
     \<and> py_number (dict_get example_evaluation ''technical_depth_score'' (PInt 50)) = Some 85"
    by (simp add: dict_get_def example_evaluation_def)
  have needed: "truthy (dict_get example_evaluation ''needs_follow_up'' (PBool False))
     \<and> dict_get example_evaluation ''follow_up_reason'' (PStr ''Seeking clarification'')
         = PStr ''Need to probe deeper on architectural decisions''"
    by (simp add: dict_get_def example_evaluation_def)
  have on_topic: "truthy (dict_get example_evaluation ''is_on_topic'' (PBool True))"
    by (simp add: dict_get_def example_evaluation_def)
  have rule: "follow_up_type_rule True 90 NORMAL 40 85 = ''probe''"
    by (simp add: follow_up_type_rule_def)
  have generated: "generate_follow_up_text ''probe'' (Some ''Why?'') = ''Why?''"
    by (simp add: generate_follow_up_text_def strip_def strip_chars_def is_space_def)
  note none = follow_up_decision [where ev = get_fallback_evaluation
      and persona = CHATTY and reply = "Some ''Why?''", THEN conjunct1, THEN mp, OF no_need]
  note some = follow_up_decision [where ev = example_evaluation
      and persona = NORMAL and reply = "Some ''Why?''" and relevance = 90 and conf = 40
      and depth = 85 and reason = "''Need to probe deeper on architectural decisions''",
      THEN conjunct2, THEN mp, OF numbers]
  show ?thesis
    using no_need none numbers needed on_topic rule generated some by simp
qed

end
